theory Spec2Isabelle
  imports Complex_Main
begin

section \<open>JavaScript values\<close>

text \<open>
  The values the modelled code compares and stores. Objects, arrays and functions are
  references (compared by identity); numbers are either NaN or a numeric value (the two
  zeros of a double, which \<open>===\<close> identifies, are one value here).
\<close>

datatype jsval =
    JUndefined
  | JNull
  | JBool bool
  | JNum real
  | JNaN
  | JStr string
  | JObject nat
  | JArray nat
  | JFunction nat

text \<open>\<open>a === b\<close>: NaN is not equal to anything, itself included.\<close>

fun strict_eq :: "jsval \<Rightarrow> jsval \<Rightarrow> bool" where
  "strict_eq JNaN b = False"
| "strict_eq a JNaN = False"
| "strict_eq a b = (a = b)"

text \<open>
  The helpers of \<open>shared/util\<close> the modelled functions import (the file itself is not
  part of the sources at hand; their names and the annotations at their call sites fix
  what they test): \<open>isDef v\<close> is \<open>v !== undefined && v !== null\<close>, \<open>isUndef\<close> its
  negation, \<open>isObject v\<close> is \<open>v !== null && typeof v === 'object'\<close>.
\<close>

fun isDef :: "jsval \<Rightarrow> bool" where
  "isDef JUndefined = False"
| "isDef JNull = False"
| "isDef v = True"

definition isUndef :: "jsval \<Rightarrow> bool" where
  "isUndef v = (\<not> isDef v)"

fun isObject :: "jsval \<Rightarrow> bool" where
  "isObject (JObject r) = True"
| "isObject (JArray r) = True"
| "isObject v = False"

text \<open>Errors the modelled code can raise.\<close>

datatype error =
    TypeError
  | Thrown jsval

section \<open>Virtual nodes (\<open>vdom/vnode.js\<close>)\<close>

text \<open>
  The fields of \<open>VNode\<close> the reconciler reads and writes. An optional field is an
  \<open>option\<close> (\<open>None\<close> for \<open>undefined\<close>); objects the node points to (its native handle,
  its async factory, its child array) are references. \<open>vhook\<close> records which hooks
  \<open>data.hook\<close> defines.
\<close>

record vattrs =
  attr_type :: jsval

record vhook =
  has_prepatch :: bool
  has_update :: bool
  has_postpatch :: bool

record vnodedata =
  dkey :: jsval
  attrs :: "vattrs option"
  hook :: "vhook option"

text \<open>
  A component instance as far as the reconciler looks into it: its identity and the
  \<open>tag\<close> and \<open>componentInstance\<close> of its \<open>_vnode\<close> (\<open>None\<close> while \<open>_vnode\<close> is still
  \<open>null\<close>).
\<close>

datatype component = Component (vm_ref: nat) (vm_vnode: "rootvnode option")
  and rootvnode = RootVNode (root_tag: "string option") (root_componentInstance: "component option")

record vnode =
  tag :: "string option"
  data :: "vnodedata option"
  children :: "nat option"
  vtext :: "string option"
  elm :: "nat option"
  key :: jsval
  componentOptions :: "nat option"
  componentInstance :: "component option"
  isStatic :: bool
  isComment :: bool
  isCloned :: bool
  isOnce :: bool
  asyncFactory :: "nat option"
  isAsyncPlaceholder :: bool

text \<open>
  The constructor \<open>new VNode(tag, data, children, text, elm, context, componentOptions,
  asyncFactory)\<close>; \<open>this.key = data && data.key\<close>.
\<close>

definition newVNode ::
  "string option \<Rightarrow> vnodedata option \<Rightarrow> nat option \<Rightarrow> string option \<Rightarrow> nat option
     \<Rightarrow> nat option \<Rightarrow> nat option \<Rightarrow> vnode" where
  "newVNode t d ch tx el opts fac =
     \<lparr> tag = t, data = d, children = ch, vtext = tx, elm = el,
       key = (case d of None \<Rightarrow> JUndefined | Some dd \<Rightarrow> dkey dd),
       componentOptions = opts, componentInstance = None,
       isStatic = False, isComment = False, isCloned = False, isOnce = False,
       asyncFactory = fac, isAsyncPlaceholder = False \<rparr>"

text \<open>An async component factory: the two properties the reconciler reads.\<close>

record factory =
  f_error :: jsval
  f_resolved :: jsval

text \<open>
  What the surrounding build and platform supply: \<open>isTextInputType\<close> of
  \<open>web/util/element\<close>, the property name a key is stored under in an object
  (\<open>map[key]\<close>), the property names every object inherits from \<open>Object.prototype\<close>,
  \<open>process.env.NODE_ENV === 'production'\<close>, the async factories by reference, and the
  number of \<open>update\<close> hooks the platform modules registered (\<open>cbs.update.length\<close>).
\<close>

record env =
  isTextInputType :: "jsval \<Rightarrow> bool"
  propertyName :: "jsval \<Rightarrow> string"
  inheritedProperty :: "string \<Rightarrow> bool"
  production :: bool
  factories :: "nat \<Rightarrow> factory"
  update_cbs :: nat

text \<open>
  Property access on an object literal \<open>{}\<close>, as \<open>createKeyToOldIdx\<close> and
  \<open>checkDuplicateKeys\<close> use it. Every object inherits the accessor \<open>__proto__\<close>: reading
  it gives \<open>Object.prototype\<close>, and assigning a number or \<open>true\<close> to it stores nothing.
  An assignment under any other name creates an own property.
\<close>

definition inherited :: "env \<Rightarrow> string \<Rightarrow> bool" where
  "inherited e name = (name = ''__proto__'' \<or> inheritedProperty e name)"

definition storeProperty :: "(string \<rightharpoonup> 'a) \<Rightarrow> string \<Rightarrow> 'a \<Rightarrow> (string \<rightharpoonup> 'a)" where
  "storeProperty m name v = (if name = ''__proto__'' then m else m(name \<mapsto> v))"

section \<open>Node identity (\<open>sameVnode\<close>, \<open>sameInputType\<close>)\<close>

text \<open>
  \<open>isDef(i = a.data) && isDef(i = i.attrs) && i.type\<close>: \<open>false\<close> unless both \<open>data\<close>
  and \<open>data.attrs\<close> are defined.
\<close>

definition inputTypeOf :: "vnode \<Rightarrow> jsval" where
  "inputTypeOf a =
     (case data a of
        None \<Rightarrow> JBool False
      | Some d \<Rightarrow> (case attrs d of None \<Rightarrow> JBool False | Some ats \<Rightarrow> attr_type ats))"

definition sameInputType :: "env \<Rightarrow> vnode \<Rightarrow> vnode \<Rightarrow> bool" where
  "sameInputType e a b =
     (if tag a \<noteq> Some ''input'' then True
      else let typeA = inputTypeOf a; typeB = inputTypeOf b
           in if strict_eq typeA typeB then True
              else if isTextInputType e typeA then isTextInputType e typeB else False)"

text \<open>
  \<open>sameVnode\<close> evaluates left to right with short-circuiting; the last conjunct reads
  \<open>b.asyncFactory.error\<close>, which raises a TypeError when \<open>b.asyncFactory\<close> is undefined.
\<close>

definition sameVnode :: "env \<Rightarrow> vnode \<Rightarrow> vnode \<Rightarrow> error + bool" where
  "sameVnode e a b =
     (if strict_eq (key a) (key b) then
        (if tag a = tag b \<and> isComment a = isComment b
            \<and> (data a \<noteq> None) = (data b \<noteq> None) \<and> sameInputType e a b
         then Inr True
         else if isAsyncPlaceholder a then
           (if asyncFactory a = asyncFactory b then
              (case asyncFactory b of
                 None \<Rightarrow> Inl TypeError
               | Some f \<Rightarrow> Inr (isUndef (f_error (factories e f))))
            else Inr False)
         else Inr False)
      else Inr False)"

section \<open>The reconciler's store\<close>

text \<open>
  VNode objects live in a store and are named by reference, so that \<open>oldVnode === vnode\<close>
  and the assignments to \<open>vnode.elm\<close> mean what they mean in the source. \<open>nextId\<close>
  is the next unused reference (for cloned nodes, copied child arrays and native handles
  the platform creates). A child array passed to the reconciler is a list of references
  with holes (\<open>None\<close> for \<open>undefined\<close>).
\<close>

record pstate =
  vnodes :: "nat \<Rightarrow> vnode"
  nextId :: nat

text \<open>\<open>xs[i]\<close> and \<open>xs[i] = v\<close> on a JavaScript array: a read out of range is
  \<open>undefined\<close>, a write beyond the end extends the array.\<close>

definition aget :: "'a option list \<Rightarrow> int \<Rightarrow> 'a option" where
  "aget xs i = (if 0 \<le> i \<and> i < int (length xs) then xs ! nat i else None)"

definition aset :: "'a option list \<Rightarrow> int \<Rightarrow> 'a option \<Rightarrow> 'a option list" where
  "aset xs i v =
     (if i < 0 then xs
      else if nat i < length xs then xs[nat i := v]
      else xs @ replicate (nat i - length xs) None @ [v])"

text \<open>
  \<open>cloneVNode\<close>: a new node with the copied fields; the constructor's defaults for the
  rest; \<open>children.slice()\<close> is a new array.
\<close>

definition cloneVNode :: "pstate \<Rightarrow> nat \<Rightarrow> pstate \<times> nat" where
  "cloneVNode s v =
     (let n = vnodes s v;
          (ch, i) = (case children n of None \<Rightarrow> (None, nextId s)
                     | Some c \<Rightarrow> (Some (nextId s), nextId s + 1));
          cloned = (newVNode (tag n) (data n) ch (vtext n) (elm n) (componentOptions n)
                      (asyncFactory n))
                   \<lparr> isStatic := isStatic n, key := key n, isComment := isComment n,
                     isCloned := True \<rparr>
      in (s\<lparr> vnodes := (vnodes s)(i := cloned), nextId := i + 1 \<rparr>, i))"

section \<open>\<open>patchVnode\<close>\<close>

text \<open>
  What \<open>patchVnode\<close> calls on the node's own level: hooks of \<open>data.hook\<close>, the
  modules' \<open>update\<close> hooks, the platform's \<open>setTextContent\<close>, and the reconciler's own
  functions for the node's children. The calls are recorded in order; what a hook or
  the platform does with its arguments is theirs.
\<close>

datatype pevent =
    Hydrate "nat option" nat
  | HookPrepatch nat nat
  | ModuleUpdate nat nat nat
  | HookUpdate nat nat
  | UpdateChildren "nat option" nat nat bool
  | CheckDuplicateKeys nat
  | SetTextContent "nat option" "string option"
  | AddVnodes "nat option" nat
  | RemoveVnodes nat
  | HookPostpatch nat nat

fun isPatchableRoot :: "rootvnode \<Rightarrow> error + bool"
  and isPatchableVm :: "component \<Rightarrow> error + bool" where
  "isPatchableRoot (RootVNode t c) =
     (case c of None \<Rightarrow> Inr (t \<noteq> None) | Some vm \<Rightarrow> isPatchableVm vm)"
| "isPatchableVm (Component r v) =
     (case v of None \<Rightarrow> Inl TypeError | Some rt \<Rightarrow> isPatchableRoot rt)"

definition isPatchable :: "vnode \<Rightarrow> error + bool" where
  "isPatchable n =
     (case componentInstance n of None \<Rightarrow> Inr (tag n \<noteq> None) | Some vm \<Rightarrow> isPatchableVm vm)"

definition hookDefined :: "vnode \<Rightarrow> (vhook \<Rightarrow> bool) \<Rightarrow> bool" where
  "hookDefined n h =
     (case data n of None \<Rightarrow> False
      | Some d \<Rightarrow> (case hook d of None \<Rightarrow> False | Some hk \<Rightarrow> h hk))"

text \<open>The part of \<open>patchVnode\<close> after the three early returns (source lines 688 to 719).\<close>

definition patchBody :: "env \<Rightarrow> pstate \<Rightarrow> nat \<Rightarrow> nat \<Rightarrow> bool \<Rightarrow> error + pevent list" where
  "patchBody e s oldVnode vnode removeOnly =
     (let old = vnodes s oldVnode; n = vnodes s vnode;
          pre = (if hookDefined n has_prepatch then [HookPrepatch oldVnode vnode] else []);
          childEvs =
            (if vtext n = None then
               (case (children old, children n) of
                  (Some oldCh, Some ch) \<Rightarrow>
                     (if oldCh \<noteq> ch then [UpdateChildren (elm n) oldCh ch removeOnly] else [])
                | (None, Some ch) \<Rightarrow>
                     (if \<not> production e then [CheckDuplicateKeys ch] else [])
                     @ (if vtext old \<noteq> None then [SetTextContent (elm n) (Some [])] else [])
                     @ [AddVnodes (elm n) ch]
                | (Some oldCh, None) \<Rightarrow> [RemoveVnodes oldCh]
                | (None, None) \<Rightarrow>
                     (if vtext old \<noteq> None then [SetTextContent (elm n) (Some [])] else []))
             else if vtext old \<noteq> vtext n then [SetTextContent (elm n) (vtext n)]
             else []);
          post = (if hookDefined n has_postpatch then [HookPostpatch oldVnode vnode] else [])
      in if data n \<noteq> None then
           (case isPatchable n of
              Inl err \<Rightarrow> Inl err
            | Inr patchable \<Rightarrow>
                Inr (pre
                     @ (if patchable
                        then map (\<lambda>i. ModuleUpdate i oldVnode vnode) [0 ..< update_cbs e]
                             @ (if hookDefined n has_update then [HookUpdate oldVnode vnode] else [])
                        else [])
                     @ childEvs @ post))
         else Inr (pre @ childEvs @ post))"

text \<open>
  \<open>patchVnode(oldVnode, vnode, insertedVnodeQueue, ownerArray, index, removeOnly)\<close>.
  The result is the store, the owner array (whose slot \<open>index\<close> holds the clone when the
  node was cloned) and the calls made. \<open>insertedVnodeQueue\<close> is only handed on to
  hooks and is left out.
\<close>

definition patchVnode ::
  "env \<Rightarrow> pstate \<Rightarrow> nat \<Rightarrow> nat \<Rightarrow> nat option list option \<Rightarrow> int \<Rightarrow> bool
     \<Rightarrow> error + (pstate \<times> nat option list option \<times> pevent list)" where
  "patchVnode e s oldVnode vnode0 ownerArray index removeOnly =
     (if oldVnode = vnode0 then Inr (s, ownerArray, [])
      else
        let (s1, vnode, arr) =
              (case ownerArray of
                 Some a \<Rightarrow>
                   (if elm (vnodes s vnode0) \<noteq> None
                    then (let (s', c) = cloneVNode s vnode0 in (s', c, Some (aset a index (Some c))))
                    else (s, vnode0, ownerArray))
               | None \<Rightarrow> (s, vnode0, ownerArray));
            old = vnodes s1 oldVnode;
            s2 = s1\<lparr> vnodes := (vnodes s1)(vnode := (vnodes s1 vnode)\<lparr> elm := elm old \<rparr>) \<rparr>;
            n = vnodes s2 vnode
        in if isAsyncPlaceholder old then
             (case asyncFactory n of
                None \<Rightarrow> Inl TypeError
              | Some f \<Rightarrow>
                  (if isDef (f_resolved (factories e f))
                   then Inr (s2, arr, [Hydrate (elm old) vnode])
                   else Inr (s2\<lparr> vnodes := (vnodes s2)(vnode := n\<lparr> isAsyncPlaceholder := True \<rparr>) \<rparr>,
                             arr, [])))
           else if isStatic n \<and> isStatic old \<and> strict_eq (key n) (key old)
                   \<and> (isCloned n \<or> isOnce n) then
             Inr (s2\<lparr> vnodes := (vnodes s2)(vnode := n\<lparr> componentInstance := componentInstance old \<rparr>) \<rparr>,
                  arr, [])
           else
             (case patchBody e s2 oldVnode vnode removeOnly of
                Inl err \<Rightarrow> Inl err
              | Inr evs \<Rightarrow> Inr (s2, arr, evs)))"

section \<open>\<open>updateChildren\<close>\<close>

text \<open>
  The calls \<open>updateChildren\<close> makes on the level of the two sibling lists. A
  \<open>PatchVnode\<close> carries the calls that patch made on its own level. The reference
  position of an \<open>insertBefore\<close> is a handle or the platform's \<open>nextSibling\<close> of one.
  \<open>AddVnodesCall\<close> and \<open>RemoveVnodesCall\<close> mark the two calls after the loop; the
  creations and removals they perform follow them.
\<close>

datatype refpos =
    RefNode "nat option"
  | RefNextSibling "nat option"

datatype uevent =
    WarnDuplicateKey jsval
  | PatchVnode nat nat int "pevent list"
  | InsertBefore "nat option" "nat option" refpos
  | CreateElm nat "nat option" "nat option" int
  | AddVnodesCall "nat option" int int
  | RemoveVnodesCall int int
  | RemoveAndInvokeRemoveHook nat
  | InvokeDestroyHook nat
  | RemoveNode "nat option"

text \<open>
  \<open>checkDuplicateKeys\<close>: \<open>seen\<close> is the own properties of \<open>seenKeys\<close>; a name the
  empty object inherits reads as truthy too.
\<close>

fun checkDuplicateKeys :: "env \<Rightarrow> pstate \<Rightarrow> nat option list \<Rightarrow> string list \<Rightarrow> error + uevent list" where
  "checkDuplicateKeys e s [] seen = Inr []"
| "checkDuplicateKeys e s (c # cs) seen =
     (case c of
        None \<Rightarrow> Inl TypeError
      | Some v \<Rightarrow>
          (let k = key (vnodes s v) in
           if isDef k then
             (if propertyName e k \<in> set seen \<or> inherited e (propertyName e k)
              then (case checkDuplicateKeys e s cs seen of
                      Inl err \<Rightarrow> Inl err
                    | Inr ws \<Rightarrow> Inr (WarnDuplicateKey k # ws))
              else checkDuplicateKeys e s cs (propertyName e k # seen))
           else checkDuplicateKeys e s cs seen))"

text \<open>\<open>createKeyToOldIdx(children, beginIdx, endIdx)\<close>, the loop over the indices given
  as a list; \<open>children[i].key\<close> raises on a hole.\<close>

fun keyToOldIdxLoop ::
  "env \<Rightarrow> pstate \<Rightarrow> nat option list \<Rightarrow> int list \<Rightarrow> (string \<rightharpoonup> int) \<Rightarrow> error + (string \<rightharpoonup> int)" where
  "keyToOldIdxLoop e s chs [] m = Inr m"
| "keyToOldIdxLoop e s chs (i # is) m =
     (case aget chs i of
        None \<Rightarrow> Inl TypeError
      | Some c \<Rightarrow>
          (let k = key (vnodes s c) in
           keyToOldIdxLoop e s chs is (if isDef k then storeProperty m (propertyName e k) i else m)))"

definition createKeyToOldIdx ::
  "env \<Rightarrow> pstate \<Rightarrow> nat option list \<Rightarrow> int \<Rightarrow> int \<Rightarrow> error + (string \<rightharpoonup> int)" where
  "createKeyToOldIdx e s chs beginIdx endIdx = keyToOldIdxLoop e s chs [beginIdx .. endIdx] Map.empty"

text \<open>\<open>findIdxInOld(node, oldCh, start, end)\<close>: \<open>for (let i = start; i < end; i++)\<close>.\<close>

fun findIdxLoop :: "env \<Rightarrow> pstate \<Rightarrow> nat \<Rightarrow> nat option list \<Rightarrow> int list \<Rightarrow> error + int option" where
  "findIdxLoop e s node oldCh [] = Inr None"
| "findIdxLoop e s node oldCh (i # is) =
     (case aget oldCh i of
        None \<Rightarrow> findIdxLoop e s node oldCh is
      | Some c \<Rightarrow>
          (case sameVnode e (vnodes s node) (vnodes s c) of
             Inl err \<Rightarrow> Inl err
           | Inr same \<Rightarrow> if same then Inr (Some i) else findIdxLoop e s node oldCh is))"

definition findIdxInOld :: "env \<Rightarrow> pstate \<Rightarrow> nat \<Rightarrow> nat option list \<Rightarrow> int \<Rightarrow> int \<Rightarrow> error + int option" where
  "findIdxInOld e s node oldCh start end = findIdxLoop e s node oldCh [start .. end - 1]"

text \<open>
  \<open>createElm\<close> as \<open>updateChildren\<close> and \<open>addVnodes\<close> call it (with an owner array):
  a node that already has a handle is cloned into its slot first. Building the native
  subtree is the platform's and the hooks' work: the model records the call and gives
  the node a handle not used before.
\<close>

definition createElm ::
  "pstate \<Rightarrow> nat option \<Rightarrow> nat option \<Rightarrow> nat option \<Rightarrow> nat option list \<Rightarrow> int
     \<Rightarrow> error + (pstate \<times> nat option list \<times> uevent)" where
  "createElm s vnode0 parentElm refElm ownerArray index =
     (case vnode0 of
        None \<Rightarrow> Inl TypeError
      | Some v0 \<Rightarrow>
          (let (s1, v, arr) =
                 (if elm (vnodes s v0) \<noteq> None
                  then (let (s', c) = cloneVNode s v0 in (s', c, aset ownerArray index (Some c)))
                  else (s, v0, ownerArray));
               h = nextId s1;
               s2 = s1\<lparr> vnodes := (vnodes s1)(v := (vnodes s1 v)\<lparr> elm := Some h \<rparr>), nextId := h + 1 \<rparr>
           in Inr (s2, arr, CreateElm v parentElm refElm index)))"

text \<open>\<open>sameVnode\<close> on two variables that may hold \<open>undefined\<close> (reading \<open>.key\<close> raises).\<close>

definition sameVnodeAt :: "env \<Rightarrow> pstate \<Rightarrow> nat option \<Rightarrow> nat option \<Rightarrow> error + bool" where
  "sameVnodeAt e s a b =
     (case a of None \<Rightarrow> Inl TypeError
      | Some x \<Rightarrow> (case b of None \<Rightarrow> Inl TypeError
                   | Some y \<Rightarrow> sameVnode e (vnodes s x) (vnodes s y)))"

text \<open>The local variables of \<open>updateChildren\<close>, the store, and the calls made so far.\<close>

record ucstate =
  store :: pstate
  oldCh :: "nat option list"
  newCh :: "nat option list"
  oldStartIdx :: int
  newStartIdx :: int
  oldEndIdx :: int
  newEndIdx :: int
  oldStartVnode :: "nat option"
  oldEndVnode :: "nat option"
  newStartVnode :: "nat option"
  newEndVnode :: "nat option"
  oldKeyToIdx :: "(string \<rightharpoonup> int) option"
  calls :: "uevent list"

definition elmOf :: "pstate \<Rightarrow> nat option \<Rightarrow> error + nat option" where
  "elmOf s v = (case v of None \<Rightarrow> Inl TypeError | Some x \<Rightarrow> Inr (elm (vnodes s x)))"

text \<open>
  A call \<open>patchVnode(o, n, insertedVnodeQueue, newCh, idx)\<close> from the loop, followed by
  \<open>canMove && nodeOps.insertBefore(parentElm, o.elm, ref)\<close> when the branch moves the
  node; \<open>mv\<close> gives the reference position from the store after the patch.
\<close>

definition patchAndMove ::
  "env \<Rightarrow> nat option \<Rightarrow> bool \<Rightarrow> ucstate \<Rightarrow> nat option \<Rightarrow> nat option \<Rightarrow> int
     \<Rightarrow> (pstate \<Rightarrow> error + refpos) option \<Rightarrow> error + ucstate" where
  "patchAndMove e parentElm canMove u ov nv idx mv =
     (case ov of None \<Rightarrow> Inl TypeError
      | Some x \<Rightarrow>
     (case nv of None \<Rightarrow> Inl TypeError
      | Some y \<Rightarrow>
     (case patchVnode e (store u) x y (Some (newCh u)) idx False of
        Inl err \<Rightarrow> Inl err
      | Inr (s', arr, evs) \<Rightarrow>
          (let u' = u\<lparr> store := s', newCh := (case arr of Some a \<Rightarrow> a | None \<Rightarrow> newCh u),
                       calls := calls u @ [PatchVnode x y idx evs] \<rparr>
           in case mv of
                None \<Rightarrow> Inr u'
              | Some r \<Rightarrow>
                  if canMove then
                    (case r s' of
                       Inl err \<Rightarrow> Inl err
                     | Inr rp \<Rightarrow>
                         Inr (u'\<lparr> calls := calls u' @ [InsertBefore parentElm (elm (vnodes s' x)) rp] \<rparr>))
                  else Inr u'))))"

text \<open>The last branch of the loop body (source lines 575 to 594): no positional probe
  matched. Both old end nodes are defined here.\<close>

definition fallbackStep :: "env \<Rightarrow> nat option \<Rightarrow> bool \<Rightarrow> ucstate \<Rightarrow> error + ucstate" where
  "fallbackStep e parentElm canMove u =
     (case (case oldKeyToIdx u of
              None \<Rightarrow> createKeyToOldIdx e (store u) (oldCh u) (oldStartIdx u) (oldEndIdx u)
            | Some m \<Rightarrow> Inr m) of
        Inl err \<Rightarrow> Inl err
      | Inr m \<Rightarrow>
     (case newStartVnode u of
        None \<Rightarrow> Inl TypeError
      | Some ns \<Rightarrow>
     (let u1 = u\<lparr> oldKeyToIdx := Some m \<rparr>;
          k = key (vnodes (store u) ns);
          create =
            (case elmOf (store u1) (oldStartVnode u1) of
               Inl err \<Rightarrow> Inl err
             | Inr ref \<Rightarrow>
                 (case createElm (store u1) (newStartVnode u1) parentElm ref (newCh u1) (newStartIdx u1) of
                    Inl err \<Rightarrow> Inl err
                  | Inr (s', arr, ev) \<Rightarrow>
                      Inr (u1\<lparr> store := s', newCh := arr, calls := calls u1 @ [ev] \<rparr>)))
      in case (if isDef k
               then (case m (propertyName e k) of
                       Some i \<Rightarrow> Inr (Some i)
                     | None \<Rightarrow> if inherited e (propertyName e k) then Inl TypeError
                               else Inr None)
               else findIdxInOld e (store u1) ns (oldCh u1) (oldStartIdx u1) (oldEndIdx u1)) of
           Inl err \<Rightarrow> Inl err
         | Inr idxInOld \<Rightarrow>
        (case (case idxInOld of
                 None \<Rightarrow> create
               | Some i \<Rightarrow>
                   (let vnodeToMove = aget (oldCh u1) i in
                    case sameVnodeAt e (store u1) vnodeToMove (newStartVnode u1) of
                      Inl err \<Rightarrow> Inl err
                    | Inr same \<Rightarrow>
                        if same then
                          (case patchAndMove e parentElm canMove u1 vnodeToMove (newStartVnode u1)
                                  (newStartIdx u1)
                                  (Some (\<lambda>s'. case elmOf s' (oldStartVnode u1) of
                                                 Inl err \<Rightarrow> Inl err | Inr h \<Rightarrow> Inr (RefNode h))) of
                             Inl err \<Rightarrow> Inl err
                           | Inr u2 \<Rightarrow> Inr (u2\<lparr> oldCh := aset (oldCh u2) i None \<rparr>))
                        else create)) of
           Inl err \<Rightarrow> Inl err
         | Inr u3 \<Rightarrow>
             Inr (u3\<lparr> newStartIdx := newStartIdx u3 + 1,
                      newStartVnode := aget (newCh u3) (newStartIdx u3 + 1) \<rparr>)))))"

text \<open>One iteration of the \<open>while\<close> loop (source lines 553 to 594).\<close>

definition ucstep :: "env \<Rightarrow> nat option \<Rightarrow> bool \<Rightarrow> ucstate \<Rightarrow> error + ucstate" where
  "ucstep e parentElm canMove u =
     (if oldStartVnode u = None then
        Inr (u\<lparr> oldStartIdx := oldStartIdx u + 1,
                oldStartVnode := aget (oldCh u) (oldStartIdx u + 1) \<rparr>)
      else if oldEndVnode u = None then
        Inr (u\<lparr> oldEndIdx := oldEndIdx u - 1,
                oldEndVnode := aget (oldCh u) (oldEndIdx u - 1) \<rparr>)
      else
        (case sameVnodeAt e (store u) (oldStartVnode u) (newStartVnode u) of
           Inl err \<Rightarrow> Inl err
         | Inr same1 \<Rightarrow>
        if same1 then
          (case patchAndMove e parentElm canMove u (oldStartVnode u) (newStartVnode u)
                  (newStartIdx u) None of
             Inl err \<Rightarrow> Inl err
           | Inr u' \<Rightarrow>
               Inr (u'\<lparr> oldStartIdx := oldStartIdx u' + 1,
                        oldStartVnode := aget (oldCh u') (oldStartIdx u' + 1),
                        newStartIdx := newStartIdx u' + 1,
                        newStartVnode := aget (newCh u') (newStartIdx u' + 1) \<rparr>))
        else
        (case sameVnodeAt e (store u) (oldEndVnode u) (newEndVnode u) of
           Inl err \<Rightarrow> Inl err
         | Inr same2 \<Rightarrow>
        if same2 then
          (case patchAndMove e parentElm canMove u (oldEndVnode u) (newEndVnode u)
                  (newEndIdx u) None of
             Inl err \<Rightarrow> Inl err
           | Inr u' \<Rightarrow>
               Inr (u'\<lparr> oldEndIdx := oldEndIdx u' - 1,
                        oldEndVnode := aget (oldCh u') (oldEndIdx u' - 1),
                        newEndIdx := newEndIdx u' - 1,
                        newEndVnode := aget (newCh u') (newEndIdx u' - 1) \<rparr>))
        else
        (case sameVnodeAt e (store u) (oldStartVnode u) (newEndVnode u) of
           Inl err \<Rightarrow> Inl err
         | Inr same3 \<Rightarrow>
        if same3 then
          (case patchAndMove e parentElm canMove u (oldStartVnode u) (newEndVnode u)
                  (newEndIdx u)
                  (Some (\<lambda>s'. case elmOf s' (oldEndVnode u) of
                                 Inl err \<Rightarrow> Inl err | Inr h \<Rightarrow> Inr (RefNextSibling h))) of
             Inl err \<Rightarrow> Inl err
           | Inr u' \<Rightarrow>
               Inr (u'\<lparr> oldStartIdx := oldStartIdx u' + 1,
                        oldStartVnode := aget (oldCh u') (oldStartIdx u' + 1),
                        newEndIdx := newEndIdx u' - 1,
                        newEndVnode := aget (newCh u') (newEndIdx u' - 1) \<rparr>))
        else
        (case sameVnodeAt e (store u) (oldEndVnode u) (newStartVnode u) of
           Inl err \<Rightarrow> Inl err
         | Inr same4 \<Rightarrow>
        if same4 then
          (case patchAndMove e parentElm canMove u (oldEndVnode u) (newStartVnode u)
                  (newStartIdx u)
                  (Some (\<lambda>s'. case elmOf s' (oldStartVnode u) of
                                 Inl err \<Rightarrow> Inl err | Inr h \<Rightarrow> Inr (RefNode h))) of
             Inl err \<Rightarrow> Inl err
           | Inr u' \<Rightarrow>
               Inr (u'\<lparr> oldEndIdx := oldEndIdx u' - 1,
                        oldEndVnode := aget (oldCh u') (oldEndIdx u' - 1),
                        newStartIdx := newStartIdx u' + 1,
                        newStartVnode := aget (newCh u') (newStartIdx u' + 1) \<rparr>))
        else fallbackStep e parentElm canMove u)))))"

text \<open>The \<open>while\<close> loop; each iteration moves one of the four cursors inwards.\<close>

function ucloop :: "env \<Rightarrow> nat option \<Rightarrow> bool \<Rightarrow> ucstate \<Rightarrow> error + ucstate" where
  "ucloop e parentElm canMove u =
     (if oldStartIdx u \<le> oldEndIdx u \<and> newStartIdx u \<le> newEndIdx u then
        (case ucstep e parentElm canMove u of
           Inl err \<Rightarrow> Inl err
         | Inr u' \<Rightarrow> ucloop e parentElm canMove u')
      else Inr u)"
  by pat_completeness auto
termination
proof (relation "measure (\<lambda>(e, p, c, u). nat (oldEndIdx u - oldStartIdx u + 1)
                                          + nat (newEndIdx u - newStartIdx u + 1))")
  show "wf (measure (\<lambda>(e, p, c, u). nat (oldEndIdx u - oldStartIdx u + 1)
                                     + nat (newEndIdx u - newStartIdx u + 1)))"
    by simp
next
  fix e :: env and parentElm :: "nat option" and canMove :: bool and u u' :: ucstate
  assume c: "oldStartIdx u \<le> oldEndIdx u \<and> newStartIdx u \<le> newEndIdx u"
    and st: "ucstep e parentElm canMove u = Inr u'"
  have bindE: "\<And>(f :: 'a \<Rightarrow> error + 'b) x r P.
      case_sum Inl f x = Inr r \<Longrightarrow> (\<And>v. x = Inr v \<Longrightarrow> f v = Inr r \<Longrightarrow> P) \<Longrightarrow> P"
    by (case_tac x) auto
  have pm: "\<And>v ov nv idx mv v'. patchAndMove e parentElm canMove v ov nv idx mv = Inr v' \<Longrightarrow>
      oldStartIdx v' = oldStartIdx v \<and> oldEndIdx v' = oldEndIdx v
      \<and> newStartIdx v' = newStartIdx v \<and> newEndIdx v' = newEndIdx v"
    unfolding patchAndMove_def Let_def
    by (auto elim!: bindE split: option.splits if_splits)
  have fb: "\<And>v'. fallbackStep e parentElm canMove u = Inr v' \<Longrightarrow>
      oldStartIdx v' = oldStartIdx u \<and> oldEndIdx v' = oldEndIdx u
      \<and> newStartIdx v' = newStartIdx u + 1 \<and> newEndIdx v' = newEndIdx u"
    unfolding fallbackStep_def Let_def
    by (auto elim!: bindE split: option.splits if_splits dest!: pm)
  have "oldEndIdx u' - oldStartIdx u' \<le> oldEndIdx u - oldStartIdx u \<and>
      newEndIdx u' - newStartIdx u' \<le> newEndIdx u - newStartIdx u \<and>
      (oldEndIdx u' - oldStartIdx u') + (newEndIdx u' - newStartIdx u')
        < (oldEndIdx u - oldStartIdx u) + (newEndIdx u - newStartIdx u)"
    using st unfolding ucstep_def
    by (auto elim!: bindE dest!: pm fb split: if_splits)
  with c show "((e, parentElm, canMove, u'), (e, parentElm, canMove, u))
      \<in> measure (\<lambda>(e, p, c, u). nat (oldEndIdx u - oldStartIdx u + 1)
                                 + nat (newEndIdx u - newStartIdx u + 1))"
    by auto
qed

text \<open>\<open>addVnodes\<close> and \<open>removeVnodes\<close>, the loops over the indices given as a list.\<close>

fun addVnodesLoop ::
  "pstate \<Rightarrow> nat option \<Rightarrow> nat option \<Rightarrow> nat option list \<Rightarrow> int list
     \<Rightarrow> error + (pstate \<times> nat option list \<times> uevent list)" where
  "addVnodesLoop s parentElm refElm vs [] = Inr (s, vs, [])"
| "addVnodesLoop s parentElm refElm vs (i # is) =
     (case createElm s (aget vs i) parentElm refElm vs i of
        Inl err \<Rightarrow> Inl err
      | Inr (s', vs', ev) \<Rightarrow>
          (case addVnodesLoop s' parentElm refElm vs' is of
             Inl err \<Rightarrow> Inl err
           | Inr (s'', vs'', evs) \<Rightarrow> Inr (s'', vs'', ev # evs)))"

definition addVnodes ::
  "pstate \<Rightarrow> nat option \<Rightarrow> nat option \<Rightarrow> nat option list \<Rightarrow> int \<Rightarrow> int
     \<Rightarrow> error + (pstate \<times> nat option list \<times> uevent list)" where
  "addVnodes s parentElm refElm vs startIdx endIdx =
     addVnodesLoop s parentElm refElm vs [startIdx .. endIdx]"

fun removeVnodesLoop :: "pstate \<Rightarrow> nat option list \<Rightarrow> int list \<Rightarrow> uevent list" where
  "removeVnodesLoop s vs [] = []"
| "removeVnodesLoop s vs (i # is) =
     (case aget vs i of
        None \<Rightarrow> []
      | Some ch \<Rightarrow>
          (if tag (vnodes s ch) \<noteq> None
           then [RemoveAndInvokeRemoveHook ch, InvokeDestroyHook ch]
           else [RemoveNode (elm (vnodes s ch))]))
     @ removeVnodesLoop s vs is"

definition removeVnodes :: "pstate \<Rightarrow> nat option list \<Rightarrow> int \<Rightarrow> int \<Rightarrow> uevent list" where
  "removeVnodes s vs startIdx endIdx = removeVnodesLoop s vs [startIdx .. endIdx]"

text \<open>
  \<open>updateChildren(parentElm, oldCh, newCh, insertedVnodeQueue, removeOnly)\<close>: \<open>ucInit\<close>
  is the state after the declarations (source lines 533 to 541); the result is the final
  state of the variables, with the two arrays as the loop left them and every call made.
\<close>

definition ucInit :: "pstate \<Rightarrow> nat option list \<Rightarrow> nat option list \<Rightarrow> ucstate" where
  "ucInit s oldCh0 newCh0 =
     \<lparr> store = s, oldCh = oldCh0, newCh = newCh0,
       oldStartIdx = 0, newStartIdx = 0,
       oldEndIdx = int (length oldCh0) - 1,
       newEndIdx = int (length newCh0) - 1,
       oldStartVnode = aget oldCh0 0,
       oldEndVnode = aget oldCh0 (int (length oldCh0) - 1),
       newStartVnode = aget newCh0 0,
       newEndVnode = aget newCh0 (int (length newCh0) - 1),
       oldKeyToIdx = None, calls = [] \<rparr>"

definition updateChildren ::
  "env \<Rightarrow> pstate \<Rightarrow> nat option \<Rightarrow> nat option list \<Rightarrow> nat option list \<Rightarrow> bool
     \<Rightarrow> error + ucstate" where
  "updateChildren e s parentElm oldCh0 newCh0 removeOnly =
     (let canMove = (\<not> removeOnly)
      in case (if \<not> production e then checkDuplicateKeys e s newCh0 [] else Inr []) of
           Inl err \<Rightarrow> Inl err
         | Inr warnings \<Rightarrow>
        (case ucloop e parentElm canMove ((ucInit s oldCh0 newCh0)\<lparr> calls := warnings \<rparr>) of
           Inl err \<Rightarrow> Inl err
         | Inr u \<Rightarrow>
             if oldStartIdx u > oldEndIdx u then
               (let refElm = (case aget (newCh u) (newEndIdx u + 1) of
                                None \<Rightarrow> None
                              | Some v \<Rightarrow> elm (vnodes (store u) v))
                in case addVnodes (store u) parentElm refElm (newCh u) (newStartIdx u) (newEndIdx u) of
                     Inl err \<Rightarrow> Inl err
                   | Inr (s', arr, evs) \<Rightarrow>
                       Inr (u\<lparr> store := s', newCh := arr,
                               calls := calls u
                                 @ AddVnodesCall refElm (newStartIdx u) (newEndIdx u) # evs \<rparr>))
             else if newStartIdx u > newEndIdx u then
               Inr (u\<lparr> calls := calls u
                         @ RemoveVnodesCall (oldStartIdx u) (oldEndIdx u)
                           # removeVnodes (store u) (oldCh u) (oldStartIdx u) (oldEndIdx u) \<rparr>)
             else Inr u))"

section \<open>Dependency nodes and watchers (\<open>observer/dep.js\<close>, \<open>observer/watcher.js\<close>)\<close>

text \<open>
  A \<open>Dep\<close> and a \<open>Watcher\<close> each get a unique \<open>id\<close> from a counter when constructed, so
  the store names the objects by their ids: \<open>subs d\<close> is the subscriber array of the
  \<open>Dep\<close> with id \<open>d\<close>, \<open>watchers w\<close> the fields of the \<open>Watcher\<close> with id \<open>w\<close>.
  \<open>vmWatchers\<close> and \<open>isBeingDestroyed\<close> are the \<open>_watchers\<close> and
  \<open>_isBeingDestroyed\<close> of the component instances.
\<close>

record watcher =
  vm :: nat
  deep :: bool
  user :: bool
  lazy :: bool
  sync :: bool
  dirty :: bool
  active :: bool
  deps :: "nat list"
  newDeps :: "nat list"
  depIds :: "nat set"
  newDepIds :: "nat set"
  wvalue :: jsval

record rstate =
  subs :: "nat \<Rightarrow> nat list"
  watchers :: "nat \<Rightarrow> watcher"
  target :: "nat option"
  targetStack :: "nat option list"
  vmWatchers :: "nat \<Rightarrow> nat list"
  isBeingDestroyed :: "nat \<Rightarrow> bool"

text \<open>
  The calls into code outside the modelled functions (user getters, setters and
  callbacks, the scheduler, \<open>observe\<close>, \<open>warn\<close>, \<open>handleError\<close>, the native array
  methods), and the calls of \<open>notify\<close>, \<open>update\<close> and \<open>run\<close> themselves.
\<close>

datatype arrayMethod = Push | Pop | Shift | Unshift | Splice | Sort | Reverse

datatype revent =
    GetterCall
  | CustomSetterCall
  | SetterCall jsval
  | ObserveCall jsval
  | NotifyCall nat
  | UpdateCall nat
  | RunCall nat
  | QueueWatcher nat
  | CallbackCall nat jsval jsval
  | HandleError error
  | Warn string
  | OriginalCall arrayMethod "jsval list"
  | AssignCall jsval jsval
  | DefineReactiveCall jsval jsval

text \<open>
  What the build, the configuration and the JavaScript runtime supply on this side:
  \<open>process.env.NODE_ENV === 'production'\<close>, \<open>config.async\<close>, the \<open>Observer\<close> that
  \<open>observe(v)\<close> returns (as the id of its \<open>dep\<close> and its \<open>vmCount\<close>, if any), the native
  array methods (new contents and return value, or an exception), and
  \<open>isValidArrayIndex\<close> of \<open>shared/util\<close> together with the index it accepts.
\<close>

record observer =
  ob_dep :: nat
  vmCount :: nat

record renv =
  isProduction :: bool
  configAsync :: bool
  observerOf :: "jsval \<Rightarrow> observer option"
  original :: "arrayMethod \<Rightarrow> jsval list \<Rightarrow> jsval list \<Rightarrow> error + (jsval list \<times> jsval)"
  validArrayIndex :: "jsval \<Rightarrow> nat option"
  propName :: "jsval \<Rightarrow> string"
  inObjectPrototype :: "string \<Rightarrow> bool"

subsection \<open>\<open>Dep\<close>\<close>

definition addSub :: "rstate \<Rightarrow> nat \<Rightarrow> nat \<Rightarrow> rstate" where
  "addSub s d w = s\<lparr> subs := (subs s)(d := subs s d @ [w]) \<rparr>"

text \<open>\<open>remove(arr, item)\<close> of \<open>shared/util\<close> splices out the first occurrence
  (\<open>indexOf\<close>), if there is one.\<close>

definition removeSub :: "rstate \<Rightarrow> nat \<Rightarrow> nat \<Rightarrow> rstate" where
  "removeSub s d w = s\<lparr> subs := (subs s)(d := remove1 w (subs s d)) \<rparr>"

definition pushTarget :: "rstate \<Rightarrow> nat option \<Rightarrow> rstate" where
  "pushTarget s t = s\<lparr> targetStack := targetStack s @ [t], target := t \<rparr>"

text \<open>\<open>targetStack[targetStack.length - 1]\<close> of the empty stack is \<open>undefined\<close>.\<close>

definition popTarget :: "rstate \<Rightarrow> rstate" where
  "popTarget s =
     (let st = butlast (targetStack s)
      in s\<lparr> targetStack := st, target := (if st = [] then None else last st) \<rparr>)"

subsection \<open>\<open>Watcher\<close>\<close>

definition addDep :: "rstate \<Rightarrow> nat \<Rightarrow> nat \<Rightarrow> rstate" where
  "addDep s w d =
     (let x = watchers s w in
      if d \<notin> newDepIds x then
        (let s1 = s\<lparr> watchers := (watchers s)
                      (w := x\<lparr> newDepIds := insert d (newDepIds x), newDeps := newDeps x @ [d] \<rparr>) \<rparr>
         in if d \<notin> depIds x then addSub s1 d w else s1)
      else s)"

definition depend :: "rstate \<Rightarrow> nat \<Rightarrow> rstate" where
  "depend s d = (case target s of None \<Rightarrow> s | Some w \<Rightarrow> addDep s w d)"

text \<open>\<open>cleanupDeps\<close>: the \<open>while (i--)\<close> loop visits \<open>deps\<close> from its last element to
  its first.\<close>

definition cleanupDeps :: "rstate \<Rightarrow> nat \<Rightarrow> rstate" where
  "cleanupDeps s w =
     (let x = watchers s w;
          s1 = fold (\<lambda>d t. if d \<notin> newDepIds x then removeSub t d w else t) (rev (deps x)) s
      in s1\<lparr> watchers := (watchers s1)
               (w := (watchers s1 w)\<lparr> depIds := newDepIds x, newDepIds := {},
                                      deps := newDeps x, newDeps := [] \<rparr>) \<rparr>)"

text \<open>
  One run of a watcher's getter, seen from the watcher: the dependency nodes whose
  \<open>depend()\<close> fires while the getter runs, what the getter returns or throws, the
  nodes whose \<open>depend()\<close> fires while \<open>traverse(value)\<close> runs (deep watchers only;
  \<open>traverse\<close> returns at once unless the value is an object or array), and what the
  callback throws, if it is called and throws.
\<close>

record evaluation =
  reads :: "nat list"
  outcome :: "error + jsval"
  deepReads :: "nat list"
  cbThrows :: "error option"

text \<open>
  \<open>get()\<close>: the \<open>finally\<close> block runs on every path; an exception of the getter is
  handed to \<open>handleError\<close> for a user watcher (and \<open>value\<close> stays \<open>undefined\<close>) and is
  thrown on otherwise.
\<close>

definition get :: "rstate \<Rightarrow> nat \<Rightarrow> evaluation \<Rightarrow> rstate \<times> revent list \<times> (error + jsval)" where
  "get s w ev =
     (let s1 = pushTarget s (Some w);
          s2 = fold (\<lambda>d t. depend t d) (reads ev) s1;
          (evs, res) =
             (case outcome ev of
                Inr v \<Rightarrow> ([], Inr v)
              | Inl err \<Rightarrow> if user (watchers s2 w) then ([HandleError err], Inr JUndefined)
                           else ([], Inl err));
          s3 = (if deep (watchers s2 w) \<and> (case res of Inr v \<Rightarrow> isObject v | Inl err \<Rightarrow> False)
                then fold (\<lambda>d t. depend t d) (deepReads ev) s2 else s2);
          s4 = popTarget s3;
          s5 = cleanupDeps s4 w
      in (s5, evs, res))"

text \<open>\<open>update()\<close>: \<open>run()\<close> and \<open>queueWatcher\<close> are recorded as calls.\<close>

definition update :: "rstate \<Rightarrow> nat \<Rightarrow> rstate \<times> revent list" where
  "update s w =
     (let x = watchers s w in
      if lazy x then (s\<lparr> watchers := (watchers s)(w := x\<lparr> dirty := True \<rparr>) \<rparr>, [UpdateCall w])
      else if sync x then (s, [UpdateCall w, RunCall w])
      else (s, [UpdateCall w, QueueWatcher w]))"

text \<open>\<open>notify()\<close>: the subscriber list is copied first, sorted by id in a development
  build without \<open>config.async\<close>, and every subscriber is updated.\<close>

fun updateAll :: "rstate \<Rightarrow> nat list \<Rightarrow> rstate \<times> revent list" where
  "updateAll s [] = (s, [])"
| "updateAll s (w # ws) =
     (let (s1, evs1) = update s w; (s2, evs2) = updateAll s1 ws in (s2, evs1 @ evs2))"

definition notify :: "renv \<Rightarrow> rstate \<Rightarrow> nat \<Rightarrow> rstate \<times> revent list" where
  "notify e s d =
     (let snapshot = (if \<not> isProduction e \<and> \<not> configAsync e then sort (subs s d) else subs s d);
          (s', evs) = updateAll s snapshot
      in (s', NotifyCall d # evs))"

text \<open>\<open>run()\<close>: an exception of the callback is handed to \<open>handleError\<close> for a user
  watcher and thrown on otherwise.\<close>

definition run :: "rstate \<Rightarrow> nat \<Rightarrow> evaluation \<Rightarrow> error + (rstate \<times> revent list)" where
  "run s w ev =
     (if active (watchers s w) then
        (case get s w ev of
           (s1, evs, Inl err) \<Rightarrow> Inl err
         | (s1, evs, Inr v) \<Rightarrow>
             (let x = watchers s1 w in
              if \<not> strict_eq v (wvalue x) \<or> isObject v \<or> deep x then
                (let oldValue = wvalue x;
                     s2 = s1\<lparr> watchers := (watchers s1)(w := x\<lparr> wvalue := v \<rparr>) \<rparr>
                 in case cbThrows ev of
                      None \<Rightarrow> Inr (s2, evs @ [CallbackCall w v oldValue])
                    | Some err \<Rightarrow>
                        if user x then Inr (s2, evs @ [CallbackCall w v oldValue, HandleError err])
                        else Inl err)
              else Inr (s1, evs)))
      else Inr (s, []))"

definition evaluate :: "rstate \<Rightarrow> nat \<Rightarrow> evaluation \<Rightarrow> error + (rstate \<times> revent list)" where
  "evaluate s w ev =
     (case get s w ev of
        (s1, evs, Inl err) \<Rightarrow> Inl err
      | (s1, evs, Inr v) \<Rightarrow>
          Inr (s1\<lparr> watchers := (watchers s1)(w := (watchers s1 w)\<lparr> wvalue := v, dirty := False \<rparr>) \<rparr>,
               evs))"

definition teardown :: "rstate \<Rightarrow> nat \<Rightarrow> rstate" where
  "teardown s w =
     (let x = watchers s w in
      if active x then
        (let s1 = (if \<not> isBeingDestroyed s (vm x)
                   then s\<lparr> vmWatchers := (vmWatchers s)(vm x := remove1 w (vmWatchers s (vm x))) \<rparr>
                   else s);
             s2 = fold (\<lambda>d t. removeSub t d w) (rev (deps x)) s1
         in s2\<lparr> watchers := (watchers s2)(w := (watchers s2 w)\<lparr> active := False \<rparr>) \<rparr>)
      else s)"

section \<open>Reactive properties, arrays and \<open>set\<close> (\<open>observer/index.js\<close>, \<open>observer/array.js\<close>)\<close>

text \<open>
  What the closure of \<open>defineReactive\<close> holds for one property: \<open>val\<close>, the id of its
  \<open>dep\<close>, \<open>childOb\<close>, the property's original getter (as the value it returns when
  called) and whether it had a setter, \<open>shallow\<close>, and whether a \<open>customSetter\<close> was
  given.
\<close>

record property =
  p_val :: jsval
  p_dep :: nat
  p_childOb :: "observer option"
  p_getter :: "jsval option"
  p_setter :: bool
  p_shallow :: bool
  p_customSetter :: bool

definition reactiveSetter :: "renv \<Rightarrow> rstate \<Rightarrow> property \<Rightarrow> jsval \<Rightarrow> rstate \<times> property \<times> revent list" where
  "reactiveSetter e s p newVal =
     (let (v, evs0) = (case p_getter p of Some g \<Rightarrow> (g, [GetterCall]) | None \<Rightarrow> (p_val p, []))
      in if strict_eq newVal v \<or> (\<not> strict_eq newVal newVal \<and> \<not> strict_eq v v) then (s, p, evs0)
         else
           (let evs1 = evs0 @ (if \<not> isProduction e \<and> p_customSetter p then [CustomSetterCall] else [])
            in if p_getter p \<noteq> None \<and> \<not> p_setter p then (s, p, evs1)
               else
                 (let (p1, evs2) = (if p_setter p then (p, evs1 @ [SetterCall newVal])
                                    else (p\<lparr> p_val := newVal \<rparr>, evs1));
                      (p2, evs3) = (if p_shallow p then (p1\<lparr> p_childOb := None \<rparr>, evs2)
                                    else (p1\<lparr> p_childOb := observerOf e newVal \<rparr>,
                                          evs2 @ [ObserveCall newVal]));
                      (s', nevs) = notify e s (p_dep p)
                  in (s', p2, evs3 @ nevs))))"

text \<open>An array with its \<open>__ob__\<close>, and the \<open>mutator\<close> installed for each of the seven
  methods.\<close>

record jsarray =
  elems :: "jsval list"
  arr_ob :: "observer option"

definition inserted :: "arrayMethod \<Rightarrow> jsval list \<Rightarrow> jsval list option" where
  "inserted m args =
     (case m of Push \<Rightarrow> Some args | Unshift \<Rightarrow> Some args | Splice \<Rightarrow> Some (drop 2 args)
      | _ \<Rightarrow> None)"

definition observeArray :: "jsval list \<Rightarrow> revent list" where
  "observeArray items = map ObserveCall items"

definition mutator ::
  "renv \<Rightarrow> rstate \<Rightarrow> jsarray \<Rightarrow> arrayMethod \<Rightarrow> jsval list
     \<Rightarrow> error + (rstate \<times> jsarray \<times> jsval \<times> revent list)" where
  "mutator e s a m args =
     (case original e m args (elems a) of
        Inl err \<Rightarrow> Inl err
      | Inr (elems', result) \<Rightarrow>
          (case arr_ob a of
             None \<Rightarrow> Inl TypeError
           | Some ob \<Rightarrow>
               (let oevs = (case inserted m args of None \<Rightarrow> [] | Some xs \<Rightarrow> observeArray xs);
                    (s', nevs) = notify e s (ob_dep ob)
                in Inr (s', a\<lparr> elems := elems' \<rparr>, result, OriginalCall m args # oevs @ nevs))))"

text \<open>
  The target of \<open>set\<close>: \<open>undefined\<close>, \<open>null\<close> or a primitive, or an object with its own
  properties, the names found on its prototype chain, \<open>_isVue\<close> and \<open>__ob__\<close>; an array
  has its elements besides.
\<close>

record jsobject =
  o_isArray :: bool
  o_elems :: "jsval list"
  o_own :: "string \<rightharpoonup> jsval"
  o_proto :: "string \<Rightarrow> bool"
  o_isVue :: bool
  o_ob :: "observer option"

datatype target = NotObject jsval | Object jsobject

text \<open>
  \<open>set(target, key, val)\<close>. On \<open>undefined\<close>, \<open>null\<close> or a primitive the \<open>in\<close> operator
  raises a TypeError (after the warning of a development build). An assignment
  \<open>target[key] = val\<close> and the call of \<open>defineReactive\<close> are recorded and the property
  is stored.
\<close>

definition rootWarning :: string where
  "rootWarning = ''Avoid adding reactive properties to a Vue instance or its root $data at runtime - declare it upfront in the data option.''"

definition set_property ::
  "renv \<Rightarrow> rstate \<Rightarrow> target \<Rightarrow> jsval \<Rightarrow> jsval \<Rightarrow> error + (rstate \<times> target \<times> jsval \<times> revent list)" where
  "set_property e s t k val =
     (case t of
        NotObject v \<Rightarrow> Inl TypeError
      | Object ob \<Rightarrow>
          (case (if o_isArray ob then validArrayIndex e k else None) of
             Some i \<Rightarrow>
               (let padded = o_elems ob @ replicate (i - length (o_elems ob)) JUndefined
                in case o_ob ob of
                     Some x \<Rightarrow>
                       (case mutator e s \<lparr> elems = padded, arr_ob = o_ob ob \<rparr> Splice [k, JNum 1, val] of
                          Inl err \<Rightarrow> Inl err
                        | Inr (s', a, r, evs) \<Rightarrow> Inr (s', Object (ob\<lparr> o_elems := elems a \<rparr>), val, evs))
                   | None \<Rightarrow>
                       (case original e Splice [k, JNum 1, val] padded of
                          Inl err \<Rightarrow> Inl err
                        | Inr (elems', r) \<Rightarrow>
                            Inr (s, Object (ob\<lparr> o_elems := elems' \<rparr>), val,
                                 [OriginalCall Splice [k, JNum 1, val]])))
           | None \<Rightarrow>
               (if (o_own ob (propName e k) \<noteq> None \<or> o_proto ob (propName e k))
                   \<and> \<not> inObjectPrototype e (propName e k) then
                  Inr (s, Object (ob\<lparr> o_own := (o_own ob)(propName e k \<mapsto> val) \<rparr>), val,
                       [AssignCall k val])
                else if o_isVue ob \<or> (case o_ob ob of None \<Rightarrow> False | Some x \<Rightarrow> vmCount x \<noteq> 0) then
                  Inr (s, t, val,
                       if \<not> isProduction e then [Warn rootWarning] else [])
                else
                  (case o_ob ob of
                     None \<Rightarrow>
                       Inr (s, Object (ob\<lparr> o_own := (o_own ob)(propName e k \<mapsto> val) \<rparr>), val,
                            [AssignCall k val])
                   | Some x \<Rightarrow>
                       (let (s', nevs) = notify e s (ob_dep x)
                        in Inr (s', Object (ob\<lparr> o_own := (o_own ob)(propName e k \<mapsto> val) \<rparr>), val,
                                DefineReactiveCall k val # nevs))))))"

section \<open>Example data\<close>

text \<open>
  A concrete environment for the examples below: the web platform's text-like input
  types, string keys named by themselves, no inherited property names, a development
  build, factories without error or result, one module \<open>update\<close> hook.
\<close>

definition webEnv :: env where
  "webEnv =
     \<lparr> isTextInputType =
         (\<lambda>v. v \<in> {JStr ''text'', JStr ''number'', JStr ''password'', JStr ''search'',
                    JStr ''email'', JStr ''tel'', JStr ''url''}),
       propertyName = (\<lambda>v. case v of JStr x \<Rightarrow> x | _ \<Rightarrow> []),
       inheritedProperty = (\<lambda>x. False),
       production = False,
       factories = (\<lambda>f. \<lparr> f_error = JUndefined, f_resolved = JUndefined \<rparr>),
       update_cbs = 1 \<rparr>"

definition inputNode :: "string \<Rightarrow> vnode" where
  "inputNode ty =
     newVNode (Some ''input'')
       (Some \<lparr> dkey = JStr ''k'', attrs = Some \<lparr> attr_type = JStr ty \<rparr>, hook = None \<rparr>)
       None None None None None"

text \<open>
  A development build with the scheduler on (\<open>config.async\<close>), no value observed yet,
  numeric array indices, string keys named by themselves, and the native \<open>push\<close>,
  \<open>pop\<close>, \<open>shift\<close> and \<open>unshift\<close> (the examples call no other native method; this
  runtime reports any other as an exception).
\<close>

definition nativeArray :: "arrayMethod \<Rightarrow> jsval list \<Rightarrow> jsval list \<Rightarrow> error + (jsval list \<times> jsval)" where
  "nativeArray m args xs =
     (case m of
        Push \<Rightarrow> Inr (xs @ args, JNum (real (length (xs @ args))))
      | Unshift \<Rightarrow> Inr (args @ xs, JNum (real (length (args @ xs))))
      | Pop \<Rightarrow> Inr (butlast xs, if xs = [] then JUndefined else last xs)
      | Shift \<Rightarrow> Inr (tl xs, if xs = [] then JUndefined else hd xs)
      | _ \<Rightarrow> Inl (Thrown (JStr ''unsupported'')))"

definition devEnv :: renv where
  "devEnv =
     \<lparr> isProduction = False, configAsync = True,
       observerOf = (\<lambda>v. None),
       original = nativeArray,
       validArrayIndex = (\<lambda>v. case v of JNum r \<Rightarrow> (if 0 \<le> r \<and> r \<in> \<int> then Some (nat \<lfloor>r\<rfloor>) else None)
                              | _ \<Rightarrow> None),
       propName = (\<lambda>v. case v of JStr x \<Rightarrow> x | _ \<Rightarrow> []),
       inObjectPrototype = (\<lambda>x. x \<in> {''constructor'', ''toString'', ''valueOf'', ''hasOwnProperty''}) \<rparr>"

definition prodEnv :: renv where
  "prodEnv = devEnv\<lparr> isProduction := True \<rparr>"

text \<open>A watcher as its constructor leaves it before the first \<open>get()\<close>.\<close>

definition newWatcher :: "nat \<Rightarrow> bool \<Rightarrow> bool \<Rightarrow> bool \<Rightarrow> bool \<Rightarrow> watcher" where
  "newWatcher v dp us lz sy =
     \<lparr> vm = v, deep = dp, user = us, lazy = lz, sync = sy, dirty = lz, active = True,
       deps = [], newDeps = [], depIds = {}, newDepIds = {}, wvalue = JUndefined \<rparr>"

text \<open>
  A store with the dependency nodes 1 and 2 and three watchers of component 0: watcher 1
  (a render watcher) has read node 1, watcher 2 (lazy) has read nodes 1 and 2, watcher 3
  (a user watcher with the cached value 5) has read node 2.
\<close>

definition exampleStore :: rstate where
  "exampleStore =
     \<lparr> subs = (\<lambda>d. [])(1 := [1, 2], 2 := [2, 3]),
       watchers = (\<lambda>w. newWatcher 0 False False False False)
         (1 := (newWatcher 0 False False False False)\<lparr> deps := [1], depIds := {1} \<rparr>,
          2 := (newWatcher 0 False False True False)\<lparr> deps := [1, 2], depIds := {1, 2}, dirty := False \<rparr>,
          3 := (newWatcher 0 False True False False)\<lparr> deps := [2], depIds := {2}, wvalue := JNum 5 \<rparr>),
       target = None, targetStack = [],
       vmWatchers = (\<lambda>v. [])(0 := [1, 2, 3]),
       isBeingDestroyed = (\<lambda>v. False) \<rparr>"

definition exampleProperty :: "jsval \<Rightarrow> property" where
  "exampleProperty v =
     \<lparr> p_val = v, p_dep = 1, p_childOb = None, p_getter = None, p_setter = False,
       p_shallow = False, p_customSetter = False \<rparr>"

text \<open>\<open>const value = getter ? getter.call(obj) : val\<close>, the current value of a reactive
  property.\<close>

definition currentValue :: "property \<Rightarrow> jsval" where
  "currentValue p = (case p_getter p of Some g \<Rightarrow> g | None \<Rightarrow> p_val p)"

definition isNotifyCall :: "revent \<Rightarrow> bool" where
  "isNotifyCall ev = (case ev of NotifyCall d \<Rightarrow> True | _ \<Rightarrow> False)"

definition isCallbackCall :: "revent \<Rightarrow> bool" where
  "isCallbackCall ev = (case ev of CallbackCall w a b \<Rightarrow> True | _ \<Rightarrow> False)"

text \<open>A root data object \<open>{ a: 1 }\<close> of one component (\<open>vmCount = 1\<close>).\<close>

definition rootData :: jsobject where
  "rootData =
     \<lparr> o_isArray = False, o_elems = [], o_own = [''a'' \<mapsto> JNum 1],
       o_proto = (\<lambda>x. x \<in> {''constructor'', ''toString'', ''valueOf'', ''hasOwnProperty''}),
       o_isVue = False, o_ob = Some \<lparr> ob_dep = 2, vmCount = 1 \<rparr> \<rparr>"

text \<open>Two states of a watcher that differ at most in its dependency lists and sets.\<close>

definition sameCore :: "watcher \<Rightarrow> watcher \<Rightarrow> bool" where
  "sameCore x y =
     (wvalue x = wvalue y \<and> deep x = deep y \<and> user x = user y \<and> active x = active y
      \<and> lazy x = lazy y \<and> sync x = sync y \<and> dirty x = dirty y \<and> vm x = vm y)"

text \<open>
  The object \<open>patchVnode\<close> works on as \<open>vnode\<close> after its first lines: the clone, when
  the new node already has a handle and sits in an owner array, else the new node itself.
\<close>

definition patchedNode :: "pstate \<Rightarrow> nat \<Rightarrow> nat \<Rightarrow> nat option list option \<Rightarrow> nat" where
  "patchedNode s oldVnode vnode ownerArray =
     (if oldVnode \<noteq> vnode \<and> ownerArray \<noteq> None \<and> elm (vnodes s vnode) \<noteq> None
      then snd (cloneVNode s vnode) else vnode)"

text \<open>Static \<open>div\<close> nodes: an old one with handle 10, a new one fresh from a render
  function, and a new one reused from an earlier render (it still has a handle).\<close>

definition staticNode :: "nat option \<Rightarrow> nat option \<Rightarrow> vnode" where
  "staticNode ch el =
     (newVNode (Some ''div'') (Some \<lparr> dkey = JUndefined, attrs = None, hook = None \<rparr>) ch None el
        None None)\<lparr> isStatic := True \<rparr>"

definition staticStore :: pstate where
  "staticStore =
     \<lparr> vnodes = (\<lambda>r. newVNode None None None None None None None)
         (1 := staticNode (Some 100) (Some 10),
          2 := staticNode (Some 101) None,
          3 := staticNode (Some 101) (Some 11)),
       nextId = 200 \<rparr>"

text \<open>
  The dependency nodes whose \<open>depend()\<close> fires during one \<open>get()\<close> of watcher \<open>w\<close>, in
  order: those of the getter, then those of \<open>traverse\<close>.
\<close>

definition touched :: "rstate \<Rightarrow> nat \<Rightarrow> evaluation \<Rightarrow> nat list" where
  "touched s w ev =
     reads ev @ (if deep (watchers s w) \<and> (case outcome ev of Inr v \<Rightarrow> isObject v | Inl err \<Rightarrow> False)
                 then deepReads ev else [])"

text \<open>
  A watcher between two evaluations that was never torn down: its working set is empty
  and it is in the subscriber list of a dependency node once if the node is in its
  dependency set, and not at all otherwise.
\<close>

definition subscribedExactly :: "rstate \<Rightarrow> nat \<Rightarrow> bool" where
  "subscribedExactly s w =
     (newDeps (watchers s w) = [] \<and> newDepIds (watchers s w) = {}
      \<and> depIds (watchers s w) = set (deps (watchers s w))
      \<and> (\<forall>d. count_list (subs s d) w = (if d \<in> depIds (watchers s w) then 1 else 0)))"

text \<open>
  No node of \<open>chs\<close> at the indices \<open>is\<close> is the same node as \<open>node\<close> for
  \<open>sameVnode(node, c)\<close> (consumed slots are skipped), and the node \<open>createElm\<close> gives a
  handle: the clone, when the node already had one.
\<close>

definition noMatchIn :: "env \<Rightarrow> pstate \<Rightarrow> nat \<Rightarrow> nat option list \<Rightarrow> int list \<Rightarrow> bool" where
  "noMatchIn e s node chs is =
     (\<forall>i \<in> set is. case aget chs i of None \<Rightarrow> True
                     | Some c \<Rightarrow> sameVnode e (vnodes s node) (vnodes s c) = Inr False)"

definition createdNode :: "pstate \<Rightarrow> nat \<Rightarrow> nat" where
  "createdNode s v = (if elm (vnodes s v) \<noteq> None then snd (cloneVNode s v) else v)"

text \<open>
  An old list of a plain \<open>div\<close> and a resolved async component, and a new list of the
  async placeholder of the same factory (kept from an earlier render, where it was
  hydrated) and a text node.
\<close>

definition asyncStore :: pstate where
  "asyncStore =
     \<lparr> vnodes = (\<lambda>r. newVNode None None None None None None None)
         (1 := newVNode (Some ''div'') None None None (Some 10) None None,
          2 := newVNode (Some ''vue-component-1'')
                 (Some \<lparr> dkey = JUndefined, attrs = None, hook = None \<rparr>) None None (Some 11)
                 (Some 5) (Some 7),
          3 := (newVNode None None None (Some []) None None (Some 7))
                 \<lparr> isComment := True, isAsyncPlaceholder := True \<rparr>,
          4 := newVNode None None None (Some ''x'') None None None),
       nextId = 200 \<rparr>"

text \<open>Keyless old children \<open>div\<close>, \<open>p\<close>, \<open>span\<close> with handles, and new children \<open>p\<close>,
  \<open>em\<close> without.\<close>

definition keylessStore :: pstate where
  "keylessStore =
     \<lparr> vnodes = (\<lambda>r. newVNode None None None None None None None)
         (1 := newVNode (Some ''div'') None None None (Some 10) None None,
          2 := newVNode (Some ''p'') None None None (Some 11) None None,
          3 := newVNode (Some ''span'') None None None (Some 12) None None,
          4 := newVNode (Some ''p'') None None None None None None,
          5 := newVNode (Some ''em'') None None None None None None),
       nextId = 200 \<rparr>"

section \<open>Reordered keyed children\<close>

text \<open>
  What a call \<open>patchVnode(o, n, ...)\<close> from the loop needs in order to return: when \<open>o\<close>
  is an async placeholder the source reads \<open>n.asyncFactory.resolved\<close>, so \<open>n\<close> has a
  factory; and \<open>isPatchable(n)\<close> reaches the end of the instance chain.
\<close>

definition patchSafe :: "vnode \<Rightarrow> vnode \<Rightarrow> bool" where
  "patchSafe old n =
     ((isAsyncPlaceholder old \<longrightarrow> asyncFactory n \<noteq> None) \<and> \<not> isl (isPatchable n))"


text \<open>
  The two lists hold the same keyed nodes in another order: \<open>oa\<close> and \<open>na\<close> give the old
  and the new node at an index, the new node at \<open>j\<close> is the same node as the old node at
  \<open>\<pi> j\<close>, \<open>\<sigma>\<close> is the inverse of \<open>\<pi>\<close>, and the old keys are stored under distinct
  property names, none of them \<open>__proto__\<close>.
\<close>

definition reordered ::
  "env \<Rightarrow> pstate \<Rightarrow> int \<Rightarrow> (int \<Rightarrow> nat) \<Rightarrow> (int \<Rightarrow> nat) \<Rightarrow> (int \<Rightarrow> int) \<Rightarrow> (int \<Rightarrow> int) \<Rightarrow> bool" where
  "reordered e s n oa na \<pi> \<sigma> =
     ((\<forall>i. 0 \<le> i \<and> i < n \<longrightarrow>
          0 \<le> \<pi> i \<and> \<pi> i < n \<and> \<sigma> (\<pi> i) = i \<and> 0 \<le> \<sigma> i \<and> \<sigma> i < n \<and> \<pi> (\<sigma> i) = i
          \<and> oa i < nextId s \<and> na i < nextId s
          \<and> isDef (key (vnodes s (oa i)))
          \<and> propertyName e (key (vnodes s (oa i))) \<noteq> ''__proto__''
          \<and> sameVnode e (vnodes s (oa (\<pi> i))) (vnodes s (na i)) = Inr True
          \<and> patchSafe (vnodes s (oa (\<pi> i))) (vnodes s (na i)))
      \<and> (\<forall>i i'. 0 \<le> i \<and> i < n \<and> 0 \<le> i' \<and> i' < n
            \<and> propertyName e (key (vnodes s (oa i))) = propertyName e (key (vnodes s (oa i')))
            \<longrightarrow> i = i'))"












text \<open>The moves among the calls made, and the move a branch makes unless \<open>removeOnly\<close>.\<close>

definition isMove :: "uevent \<Rightarrow> bool" where
  "isMove ev = (case ev of InsertBefore p h r \<Rightarrow> True | _ \<Rightarrow> False)"

definition moveCalls :: "uevent list \<Rightarrow> uevent list" where
  "moveCalls evs = filter isMove evs"

definition movedTo :: "nat option \<Rightarrow> bool \<Rightarrow> nat option \<Rightarrow> refpos \<Rightarrow> uevent list" where
  "movedTo parentElm canMove h r = (if canMove then [InsertBefore parentElm h r] else [])"







section \<open>The identity rule as the specification words it\<close>

text \<open>
  The specification's rule for "the same logical node": equal key, equal tag, equal kind
  (element, text or comment) and matching component-ness (both or neither are component
  placeholders, that is, carry \<open>componentOptions\<close>).
\<close>

datatype kind = ElementKind | TextKind | CommentKind

definition kindOf :: "vnode \<Rightarrow> kind" where
  "kindOf a = (if isComment a then CommentKind else if tag a = None then TextKind else ElementKind)"

definition specSameNode :: "vnode \<Rightarrow> vnode \<Rightarrow> bool" where
  "specSameNode a b =
     (key a = key b \<and> tag a = tag b \<and> kindOf a = kindOf b
      \<and> (componentOptions a = None) = (componentOptions b = None))"

section \<open>Node identity: what \<open>sameVnode\<close> decides\<close>


text \<open>
  Claim C5, as far as it holds. \<open>sameVnode a b\<close> is true exactly when the keys are
  strictly equal and either the tags, the comment flags and the presence of \<open>data\<close>
  agree and the input types are compatible, or \<open>a\<close> is an async placeholder with the
  factory of \<open>b\<close> and that factory has recorded no error. Equal key, tag and kind
  alone are neither necessary nor sufficient.
\<close>

theorem sameVnode_characterisation:
  "sameVnode e a b = Inr True \<longleftrightarrow>
     strict_eq (key a) (key b) \<and>
     ((tag a = tag b \<and> isComment a = isComment b \<and> (data a = None) = (data b = None)
         \<and> (tag a = Some ''input'' \<longrightarrow>
              strict_eq (inputTypeOf a) (inputTypeOf b)
              \<or> isTextInputType e (inputTypeOf a) \<and> isTextInputType e (inputTypeOf b)))
      \<or> (isAsyncPlaceholder a \<and> asyncFactory a = asyncFactory b
          \<and> (\<exists>f. asyncFactory b = Some f \<and> isUndef (f_error (factories e f)))))"
  by (auto simp: sameVnode_def sameInputType_def Let_def split: option.splits)

theorem sameVnode_characterisation_witness:
  "sameVnode webEnv (inputNode ''text'') (inputNode ''email'') = Inr True
   \<and> tag (inputNode ''text'') = Some ''input''"
  using sameVnode_characterisation [of webEnv "inputNode ''text''" "inputNode ''email''"]
  by (simp add: webEnv_def inputNode_def newVNode_def inputTypeOf_def)

text \<open>
  Two \<open>input\<close> nodes with the same key, tag, kind and component-ness but the types
  \<open>checkbox\<close> and \<open>radio\<close> are not the same node for \<open>sameVnode\<close>.
\<close>

theorem sameVnode_spec_rule_counterexample:
  "specSameNode (inputNode ''checkbox'') (inputNode ''radio'')
   \<and> sameVnode webEnv (inputNode ''checkbox'') (inputNode ''radio'') = Inr False"
  by (simp add: specSameNode_def kindOf_def sameVnode_def sameInputType_def inputTypeOf_def
      webEnv_def inputNode_def newVNode_def)

section \<open>Notification and evaluation: basic facts\<close>

lemma update_subs: "subs (fst (update s w)) = subs s"
  by (simp add: update_def Let_def)

lemma updateAll_subs: "subs (fst (updateAll s ws)) = subs s"
  by (induction ws arbitrary: s) (simp_all add: split_beta update_subs)

lemma update_no_notify: "ev \<in> set (snd (update s w)) \<Longrightarrow> \<not> isNotifyCall ev"
  by (auto simp: update_def Let_def isNotifyCall_def split: if_splits)

lemma updateAll_no_notify: "ev \<in> set (snd (updateAll s ws)) \<Longrightarrow> \<not> isNotifyCall ev"
  by (induction ws arbitrary: s) (auto simp: split_beta dest: update_no_notify)

lemma sameCore_refl [simp]: "sameCore x x"
  by (simp add: sameCore_def)

lemma sameCore_trans: "sameCore x y \<Longrightarrow> sameCore y z \<Longrightarrow> sameCore x z"
  by (simp add: sameCore_def)

lemma removeSub_watchers [simp]: "watchers (removeSub s d w) = watchers s"
  by (simp add: removeSub_def)

lemma addSub_watchers [simp]: "watchers (addSub s d w) = watchers s"
  by (simp add: addSub_def)

lemma addDep_core: "sameCore (watchers (addDep s w d) w') (watchers s w')"
  by (simp add: addDep_def Let_def sameCore_def)

lemma depend_core: "sameCore (watchers (depend s d) w') (watchers s w')"
  by (simp add: depend_def addDep_core split: option.splits)

lemma fold_depend_core: "sameCore (watchers (fold (\<lambda>d t. depend t d) ds s) w') (watchers s w')"
proof (induction ds arbitrary: s)
  case Nil
  show ?case by simp
next
  case (Cons d ds)
  show ?case using Cons [of "depend s d"] depend_core [of s d w']
    by (auto intro: sameCore_trans)
qed

lemma fold_removeSub_watchers:
  "watchers (fold (\<lambda>d t. if P d then removeSub t d w else t) ds s) = watchers s"
  by (induction ds arbitrary: s) simp_all

lemma cleanupDeps_core: "sameCore (watchers (cleanupDeps s w) w') (watchers s w')"
  by (simp add: cleanupDeps_def Let_def fold_removeSub_watchers sameCore_def)

lemma get_core: "sameCore (watchers (fst (get s w ev)) w') (watchers s w')"
proof -
  have a: "\<And>t. sameCore (watchers (cleanupDeps (popTarget t) w) w') (watchers t w')"
    using cleanupDeps_core [of "popTarget _" w w'] by (simp add: popTarget_def Let_def sameCore_def)
  have b: "\<And>ds. sameCore (watchers (fold (\<lambda>d t. depend t d) ds (pushTarget s (Some w))) w') (watchers s w')"
    using fold_depend_core [of _ "pushTarget s (Some w)" w'] by (simp add: pushTarget_def sameCore_def)
  show ?thesis
    unfolding get_def Let_def split_beta fst_conv
    by (auto intro: sameCore_trans [OF a] sameCore_trans [OF fold_depend_core] b)
qed

lemma teardown_inactive: "\<not> active (watchers (teardown s w) w)"
  by (simp add: teardown_def Let_def fold_removeSub_watchers [where P = "\<lambda>d. True", simplified])

section \<open>Writing an unchanged value\<close>

text \<open>
  Claim C2. When the new value is strictly equal to the property's current value, or
  both are NaN, \<open>reactiveSetter\<close> returns with the store and the property as they were:
  nothing is stored, \<open>notify\<close> is not called, no watcher is updated or marked dirty. The
  only call made is the one that reads the current value through the property's original
  getter, when it has one.
\<close>

theorem reactiveSetter_same_value_noop:
  assumes "strict_eq newVal (currentValue p) \<or> (newVal = JNaN \<and> currentValue p = JNaN)"
  shows "reactiveSetter e s p newVal = (s, p, if p_getter p = None then [] else [GetterCall])"
  using assms by (auto simp: reactiveSetter_def currentValue_def Let_def split: option.splits)

theorem reactiveSetter_same_value_noop_witness:
  "reactiveSetter devEnv exampleStore (exampleProperty (JStr ''x'')) (JStr ''x'')
     = (exampleStore, exampleProperty (JStr ''x''), [])
   \<and> reactiveSetter devEnv exampleStore (exampleProperty JNaN) JNaN
     = (exampleStore, exampleProperty JNaN, [])"
  using reactiveSetter_same_value_noop [of "JStr ''x''" "exampleProperty (JStr ''x'')" devEnv exampleStore]
    reactiveSetter_same_value_noop [of JNaN "exampleProperty JNaN" devEnv exampleStore]
  by (simp add: currentValue_def exampleProperty_def)

section \<open>The array mutators\<close>

text \<open>
  Claim C8. When the native method returns, the \<open>mutator\<close> of an observed array has
  first applied it, then called \<open>observe\<close> on every inserted element in order (all
  arguments of \<open>push\<close> and \<open>unshift\<close>, the arguments of \<open>splice\<close> after the first two,
  none for the other methods), then called \<open>notify\<close> on the dependency node of the
  array's observer; that is the only \<open>notify\<close> of the call, and the subscriber lists are
  as before.
\<close>

theorem mutator_observes_then_notifies_once:
  assumes "original e m args (elems a) = Inr (xs, r)" and "arr_ob a = Some ob"
  shows "\<exists>s' nevs. mutator e s a m args
           = Inr (s', a\<lparr> elems := xs \<rparr>, r,
                  OriginalCall m args
                  # map ObserveCall (case m of Push \<Rightarrow> args | Unshift \<Rightarrow> args
                                     | Splice \<Rightarrow> drop 2 args | _ \<Rightarrow> [])
                  @ NotifyCall (ob_dep ob) # nevs)
         \<and> subs s' = subs s
         \<and> (\<forall>ev \<in> set nevs. \<not> isNotifyCall ev)"
  using assms
  by (cases m)
     (auto simp: mutator_def inserted_def observeArray_def notify_def Let_def split_beta
        updateAll_subs dest: updateAll_no_notify)

theorem mutator_observes_then_notifies_once_witness:
  "\<exists>s' nevs. mutator devEnv exampleStore \<lparr> elems = [JNum 1], arr_ob = Some \<lparr> ob_dep = 2, vmCount = 0 \<rparr> \<rparr>
       Push [JObject 7, JNum 3]
     = Inr (s', \<lparr> elems = [JNum 1, JObject 7, JNum 3], arr_ob = Some \<lparr> ob_dep = 2, vmCount = 0 \<rparr> \<rparr>,
            JNum 3, OriginalCall Push [JObject 7, JNum 3] # [ObserveCall (JObject 7), ObserveCall (JNum 3)]
                    @ NotifyCall 2 # nevs)"
  using mutator_observes_then_notifies_once
    [of devEnv Push "[JObject 7, JNum 3]" "\<lparr> elems = [JNum 1], arr_ob = Some \<lparr> ob_dep = 2, vmCount = 0 \<rparr> \<rparr>"
        "[JNum 1, JObject 7, JNum 3]" "JNum 3" "\<lparr> ob_dep = 2, vmCount = 0 \<rparr>" exampleStore]
  by (simp add: devEnv_def nativeArray_def) blast

section \<open>\<open>Watcher.run\<close>\<close>

text \<open>
  Claim C10. For an active watcher whose re-evaluation yields \<open>v\<close>, \<open>run\<close> stores \<open>v\<close>
  and calls the callback with \<open>v\<close> and the previously cached value exactly when \<open>v\<close> is
  not strictly equal to the cached value, or \<open>v\<close> is an object or array, or the watcher
  is deep; otherwise the cached value stays and no callback is called. After
  \<open>teardown\<close>, \<open>run\<close> neither re-evaluates nor calls back. (An exception of the callback
  of a watcher that is not a user watcher leaves \<open>run\<close> by that exception.)
\<close>

theorem run_fires_callback_iff_changed:
  assumes "active (watchers s w)" and "get s w ev = (s1, evs, Inr v)"
    and "cbThrows ev = None \<or> user (watchers s w)"
  shows "(\<exists>s' evs'. run s w ev = Inr (s', evs') \<and>
           (if \<not> strict_eq v (wvalue (watchers s w)) \<or> isObject v \<or> deep (watchers s w)
            then wvalue (watchers s' w) = v
                 \<and> CallbackCall w v (wvalue (watchers s w)) \<in> set evs'
            else s' = s1 \<and> wvalue (watchers s' w) = wvalue (watchers s w)
                 \<and> (\<forall>ev' \<in> set evs'. \<not> isCallbackCall ev')))
         \<and> run (teardown s w) w ev = Inr (teardown s w, [])"
proof -
  have core: "sameCore (watchers s1 w) (watchers s w)"
    using get_core [of s w ev w] assms(2) by simp
  have evs: "\<forall>ev' \<in> set evs. \<not> isCallbackCall ev'"
    using assms(2)
    by (auto simp: get_def Let_def split_beta isCallbackCall_def split: sum.splits if_splits)
  have "\<exists>s' evs'. run s w ev = Inr (s', evs') \<and>
           (if \<not> strict_eq v (wvalue (watchers s w)) \<or> isObject v \<or> deep (watchers s w)
            then wvalue (watchers s' w) = v
                 \<and> CallbackCall w v (wvalue (watchers s w)) \<in> set evs'
            else s' = s1 \<and> wvalue (watchers s' w) = wvalue (watchers s w)
                 \<and> (\<forall>ev' \<in> set evs'. \<not> isCallbackCall ev'))"
    using assms core evs
    by (auto simp: run_def Let_def sameCore_def split: option.splits)
  moreover have "run (teardown s w) w ev = Inr (teardown s w, [])"
    using teardown_inactive [of s w] by (simp add: run_def)
  ultimately show ?thesis by blast
qed

theorem run_fires_callback_iff_changed_witness:
  "(\<exists>s' evs'. run exampleStore 3 \<lparr> reads = [2], outcome = Inr (JNum 6), deepReads = [], cbThrows = None \<rparr>
       = Inr (s', evs') \<and> wvalue (watchers s' 3) = JNum 6 \<and> CallbackCall 3 (JNum 6) (JNum 5) \<in> set evs')
   \<and> (\<exists>s' evs'. run exampleStore 3 \<lparr> reads = [2], outcome = Inr (JNum 5), deepReads = [], cbThrows = None \<rparr>
       = Inr (s', evs') \<and> wvalue (watchers s' 3) = JNum 5)
   \<and> run (teardown exampleStore 3) 3 \<lparr> reads = [2], outcome = Inr (JNum 6), deepReads = [], cbThrows = None \<rparr>
       = Inr (teardown exampleStore 3, [])"
proof -
  let ?ev6 = "\<lparr> reads = [2], outcome = Inr (JNum 6), deepReads = [], cbThrows = None \<rparr>"
  let ?ev5 = "\<lparr> reads = [2], outcome = Inr (JNum 5), deepReads = [], cbThrows = None \<rparr>"
  have a: "active (watchers exampleStore 3)" "wvalue (watchers exampleStore 3) = JNum 5"
    "\<not> deep (watchers exampleStore 3)"
    by (simp_all add: exampleStore_def newWatcher_def)
  have g6: "get exampleStore 3 ?ev6 = (fst (get exampleStore 3 ?ev6), [], Inr (JNum 6))"
    by (simp add: get_def Let_def split_beta)
  have g5: "get exampleStore 3 ?ev5 = (fst (get exampleStore 3 ?ev5), [], Inr (JNum 5))"
    by (simp add: get_def Let_def split_beta)
  show ?thesis
    using run_fires_callback_iff_changed [OF a(1) g6] run_fires_callback_iff_changed [OF a(1) g5] a
    by simp blast
qed

section \<open>\<open>set\<close> on a component or its root data\<close>

text \<open>
  Claim C9, as far as it holds. When the target is a Vue instance or an object whose
  observer has a non-zero \<open>vmCount\<close>, and the key is not a property of the target (or
  is a name of \<open>Object.prototype\<close>), and the call is not an indexed write to an array,
  \<open>set\<close> returns \<open>val\<close> and leaves the target and the store as they were: nothing is
  stored and \<open>notify\<close> is not called. The warning is issued in a build that is not a
  production build, and only there.
\<close>

theorem set_property_refused_on_root:
  assumes "o_isVue ob \<or> (\<exists>x. o_ob ob = Some x \<and> vmCount x \<noteq> 0)"
    and "\<not> (o_isArray ob \<and> validArrayIndex e k \<noteq> None)"
    and "(o_own ob (propName e k) = None \<and> \<not> o_proto ob (propName e k))
         \<or> inObjectPrototype e (propName e k)"
  shows "set_property e s (Object ob) k val
           = Inr (s, Object ob, val, if isProduction e then [] else [Warn rootWarning])"
  using assms by (auto simp: set_property_def split: option.splits)

theorem set_property_refused_on_root_witness:
  "set_property devEnv exampleStore (Object rootData) (JStr ''b'') (JNum 2)
     = Inr (exampleStore, Object rootData, JNum 2, [Warn rootWarning])"
  using set_property_refused_on_root [of rootData devEnv "JStr ''b''" exampleStore "JNum 2"]
  by (simp add: rootData_def devEnv_def)

text \<open>In a production build the same call issues no warning.\<close>

theorem set_property_production_counterexample:
  "set_property prodEnv exampleStore (Object rootData) (JStr ''b'') (JNum 2)
     = Inr (exampleStore, Object rootData, JNum 2, [])"
  by (simp add: set_property_def rootData_def prodEnv_def devEnv_def)


section \<open>The static short cut of \<open>patchVnode\<close>\<close>

lemma cloneVNode_ge: "nextId s \<le> snd (cloneVNode s v)"
  by (simp add: cloneVNode_def Let_def split: option.splits)

lemma cloneVNode_fields:
  "cloneVNode s v = (s', c) \<Longrightarrow>
     isCloned (vnodes s' c) \<and> isStatic (vnodes s' c) = isStatic (vnodes s v)
     \<and> key (vnodes s' c) = key (vnodes s v) \<and> elm (vnodes s' c) = elm (vnodes s v)
     \<and> (\<forall>a. a \<noteq> c \<longrightarrow> vnodes s' a = vnodes s a) \<and> nextId s \<le> c \<and> c < nextId s'"
  by (auto simp: cloneVNode_def Let_def newVNode_def split: option.splits)

text \<open>
  Claim C6, as far as it holds. When the old node is no async placeholder, both nodes are
  static with strictly equal keys, and the new node is a clone or a \<open>v-once\<close> node (or
  becomes a clone in \<open>patchVnode\<close> itself, having a handle and an owner array),
  \<open>patchVnode\<close> returns without calling any hook, any module or any function on the
  children; the node it worked on has the old node's handle and component instance, and
  the old node is untouched.
\<close>

theorem patchVnode_static_short_circuit:
  assumes "isStatic (vnodes s vnode)" and "isStatic (vnodes s oldVnode)"
    and "strict_eq (key (vnodes s vnode)) (key (vnodes s oldVnode))"
    and "\<not> isAsyncPlaceholder (vnodes s oldVnode)"
    and "isCloned (vnodes s vnode) \<or> isOnce (vnodes s vnode)
         \<or> (ownerArray \<noteq> None \<and> elm (vnodes s vnode) \<noteq> None)"
    and "oldVnode < nextId s"
  shows "\<exists>s' arr. patchVnode e s oldVnode vnode ownerArray index removeOnly = Inr (s', arr, [])
           \<and> elm (vnodes s' (patchedNode s oldVnode vnode ownerArray)) = elm (vnodes s oldVnode)
           \<and> componentInstance (vnodes s' (patchedNode s oldVnode vnode ownerArray))
               = componentInstance (vnodes s oldVnode)
           \<and> vnodes s' oldVnode = vnodes s oldVnode"
proof (cases "oldVnode = vnode")
  case True
  then show ?thesis by (simp add: patchVnode_def patchedNode_def)
next
  case False
  show ?thesis
  proof (cases "ownerArray \<noteq> None \<and> elm (vnodes s vnode) \<noteq> None")
    case True
    obtain s1 c where cl: "cloneVNode s vnode = (s1, c)" by (cases "cloneVNode s vnode")
    note f = cloneVNode_fields [OF cl]
    from f assms(6) have ne: "c \<noteq> oldVnode" by auto
    with f have old: "vnodes s1 oldVnode = vnodes s oldVnode" by auto
    from f have cloned: "isCloned (vnodes s1 c)" by simp
    show ?thesis
      using True False assms cl ne old f cloned
      by (auto simp: patchVnode_def patchedNode_def Let_def)
  next
    case F2: False
    then show ?thesis
      using False assms
      by (auto simp: patchVnode_def patchedNode_def Let_def split: option.splits)
  qed
qed

theorem patchVnode_static_short_circuit_witness:
  "\<exists>s' arr. patchVnode webEnv staticStore 1 3 (Some [Some 3]) 0 False = Inr (s', arr, [])
      \<and> elm (vnodes s' 201) = Some 10"
  using patchVnode_static_short_circuit [of staticStore 3 1 "Some [Some 3]" webEnv 0 False]
  by (auto simp: staticStore_def staticNode_def newVNode_def patchedNode_def cloneVNode_def Let_def)

text \<open>
  Two static nodes with the same key, the new one neither cloned nor \<open>v-once\<close> (fresh
  from a render function): \<open>patchVnode\<close> runs the module's update hook and hands the
  children to \<open>updateChildren\<close>.
\<close>

theorem patchVnode_static_not_cloned_counterexample:
  "isStatic (vnodes staticStore 1) \<and> isStatic (vnodes staticStore 2)
   \<and> key (vnodes staticStore 1) = key (vnodes staticStore 2)
   \<and> map_sum id (snd \<circ> snd) (patchVnode webEnv staticStore 1 2 None 0 False)
       = Inr [ModuleUpdate 0 1 2, UpdateChildren (Some 10) 100 101 False]"
  by (simp add: patchVnode_def patchBody_def isPatchable_def hookDefined_def staticStore_def
      staticNode_def newVNode_def webEnv_def Let_def)


section \<open>Dependency collection\<close>

lemma count_list_remove1_same:
  "count_list (remove1 x xs) x = count_list xs x - 1"
  by (induction xs) auto

lemma count_list_le1_remove1: "count_list xs x \<le> 1 \<Longrightarrow> x \<notin> set (remove1 x xs)"
  using count_list_remove1_same [of x xs] by (simp add: count_list_0_iff [symmetric])

lemma addDep_effect:
  "addDep s w d =
     (let x = watchers s w in
      s\<lparr> watchers := (watchers s)(w := x\<lparr> newDepIds := insert d (newDepIds x),
                                          newDeps := newDeps x @ (if d \<in> newDepIds x then [] else [d]) \<rparr>),
         subs := (subs s)(d := subs s d @ (if d \<notin> newDepIds x \<and> d \<notin> depIds x then [w] else [])) \<rparr>)"
  by (cases s) (auto simp: addDep_def addSub_def Let_def insert_absorb fun_upd_idem)

lemma fold_depend_effect:
  assumes "target s = Some w"
  shows "let s' = fold (\<lambda>d t. depend t d) ds s; x = watchers s w; x' = watchers s' w in
           target s' = Some w \<and> targetStack s' = targetStack s
           \<and> newDepIds x' = newDepIds x \<union> set ds
           \<and> set (newDeps x') = set (newDeps x) \<union> (set ds - newDepIds x)
           \<and> depIds x' = depIds x \<and> deps x' = deps x
           \<and> (\<forall>d. count_list (newDeps x') d
                   = count_list (newDeps x) d + (if d \<in> set ds \<and> d \<notin> newDepIds x then 1 else 0))
           \<and> (\<forall>d. subs s' d
                   = subs s d @ (if d \<in> set ds \<and> d \<notin> newDepIds x \<and> d \<notin> depIds x then [w] else []))"
  using assms
proof (induction ds arbitrary: s)
  case Nil
  then show ?case by simp
next
  case (Cons a ds)
  let ?s1 = "depend s a"
  have s1: "?s1 = addDep s w a" using Cons.prems by (simp add: depend_def)
  have t1: "target ?s1 = Some w" using Cons.prems by (simp add: s1 addDep_effect Let_def)
  note ih = Cons.IH [OF t1, unfolded Let_def]
  show ?case
    unfolding Let_def fold_simps
    using ih
    by (auto simp: s1 addDep_effect Let_def)
qed


lemma fold_removeSub_subs:
  "subs (fold (\<lambda>d t. if P d then removeSub t d w else t) ds s) d
     = (if P d then (remove1 w ^^ count_list ds d) (subs s d) else subs s d)"
proof (induction ds arbitrary: s)
  case Nil
  show ?case by simp
next
  case (Cons a ds)
  show ?case
    by (simp add: Cons.IH removeSub_def funpow_swap1)
qed

lemma funpow_remove1_notin: "x \<notin> set xs \<Longrightarrow> x \<notin> set ((remove1 x ^^ n) xs)"
  by (induction n) (auto dest: notin_set_remove1)

lemma funpow_remove1_le1:
  "count_list xs x \<le> 1 \<Longrightarrow> 0 < n \<Longrightarrow> x \<notin> set ((remove1 x ^^ n) xs)"
proof -
  assume c: "count_list xs x \<le> 1" and n: "0 < n"
  then obtain m where m: "n = Suc m" by (cases n) auto
  have "x \<notin> set (remove1 x xs)" using c by (rule count_list_le1_remove1)
  then have "x \<notin> set ((remove1 x ^^ m) (remove1 x xs))" by (rule funpow_remove1_notin)
  then show ?thesis by (simp add: m funpow_swap1)
qed

lemma fold_removeSub_target:
  "target (fold (\<lambda>d t. if P d then removeSub t d w else t) ds s) = target s
   \<and> targetStack (fold (\<lambda>d t. if P d then removeSub t d w else t) ds s) = targetStack s"
  by (induction ds arbitrary: s) (simp_all add: removeSub_def)

lemma cleanupDeps_effect:
  "let x = watchers s w; s' = cleanupDeps s w; x' = watchers s' w in
     depIds x' = newDepIds x \<and> deps x' = newDeps x \<and> newDepIds x' = {} \<and> newDeps x' = []
     \<and> target s' = target s \<and> targetStack s' = targetStack s
     \<and> (\<forall>d. subs s' d = (if d \<notin> newDepIds x then (remove1 w ^^ count_list (deps x) d) (subs s d)
                             else subs s d))"
  by (simp add: cleanupDeps_def Let_def fold_removeSub_watchers fold_removeSub_subs
      fold_removeSub_target)

lemma updateAll_calls:
  "count_list (snd (updateAll s ws)) (UpdateCall w) = count_list ws w"
proof (induction ws arbitrary: s)
  case Nil
  show ?case by simp
next
  case (Cons a ws)
  have "count_list (snd (update s a)) (UpdateCall w) = (if a = w then 1 else 0)"
    by (simp add: update_def Let_def)
  then show ?case by (simp add: split_beta Cons.IH)
qed

lemma count_list_sort: "count_list (sort xs) x = count_list (xs :: nat list) x"
proof -
  have "\<And>ys. count_list (insort x' ys) x = count_list (x' # ys) x" for x' :: nat
    by (induct_tac ys) auto
  then show ?thesis by (induction xs) auto
qed

lemma notify_calls:
  "count_list (snd (notify e s d)) (UpdateCall w) = count_list (subs s d) w"
  by (simp add: notify_def Let_def split_beta updateAll_calls count_list_sort)


lemma get_effect:
  assumes idle: "newDeps (watchers s w) = []" "newDepIds (watchers s w) = {}"
  shows "let s' = fst (get s w ev); x = watchers s w; x' = watchers s' w; ds = touched s w ev in
           depIds x' = set ds \<and> set (deps x') = set ds \<and> newDepIds x' = {} \<and> newDeps x' = []
           \<and> (\<forall>d. count_list (deps x') d = (if d \<in> set ds then 1 else 0))
           \<and> (\<forall>d. subs s' d =
                  (if d \<in> set ds then subs s d @ (if d \<notin> depIds x then [w] else [])
                   else (remove1 w ^^ count_list (deps x) d) (subs s d)))"
proof -
  let ?s1 = "pushTarget s (Some w)"
  let ?ds = "touched s w ev"
  let ?s3 = "fold (\<lambda>d t. depend t d) ?ds ?s1"
  have t: "target ?s1 = Some w" by (simp add: pushTarget_def)
  have w1: "watchers ?s1 = watchers s" "subs ?s1 = subs s" by (simp_all add: pushTarget_def)
  note f = fold_depend_effect [OF t, of ?ds, unfolded Let_def w1]
  have core2: "deep (watchers (fold (\<lambda>d t. depend t d) (reads ev) ?s1) w) = deep (watchers s w)"
       "user (watchers (fold (\<lambda>d t. depend t d) (reads ev) ?s1) w) = user (watchers s w)"
    using fold_depend_core [of "reads ev" ?s1 w] by (simp_all add: sameCore_def w1)
  have g: "fst (get s w ev) = cleanupDeps (popTarget ?s3) w"
    by (auto simp: get_def Let_def split_beta touched_def core2 split: sum.splits)
  have p: "watchers (popTarget ?s3) = watchers ?s3" "subs (popTarget ?s3) = subs ?s3"
    by (simp_all add: popTarget_def Let_def)
  note c = cleanupDeps_effect [of "popTarget ?s3" w, unfolded Let_def p, folded g]
  show ?thesis
    unfolding Let_def
    using f c idle by (auto simp: count_list_0_iff)
qed



text \<open>The two hypotheses on the subscriber lists are kept by every evaluation, and hold
  for a watcher that has not been evaluated yet.\<close>

lemma get_keeps_subscribedExactly:
  assumes "subscribedExactly s w"
  shows "subscribedExactly (fst (get s w ev)) w"
proof -
  from assms have idle: "newDeps (watchers s w) = []" "newDepIds (watchers s w) = {}"
    and ids: "depIds (watchers s w) = set (deps (watchers s w))"
    and cnt: "\<And>d. count_list (subs s d) w = (if d \<in> depIds (watchers s w) then 1 else 0)"
    by (simp_all add: subscribedExactly_def)
  note g = get_effect [OF idle, of ev, unfolded Let_def]
  have "count_list (subs (fst (get s w ev)) d) w = (if d \<in> set (touched s w ev) then 1 else 0)" for d
  proof (cases "d \<in> set (touched s w ev)")
    case True
    then show ?thesis using g cnt [of d] by simp
  next
    case False
    show ?thesis
    proof (cases "d \<in> set (deps (watchers s w))")
      case True
      then have pos: "0 < count_list (deps (watchers s w)) d"
        using count_list_0_iff [of "deps (watchers s w)" d]
        by (cases "count_list (deps (watchers s w)) d") auto
      have "count_list (subs s d) w \<le> 1" using cnt [of d] by simp
      from funpow_remove1_le1 [OF this pos] show ?thesis using g False by simp
    next
      case F: False
      then have "count_list (deps (watchers s w)) d = 0" by simp
      then show ?thesis using g False F cnt [of d] ids by simp
    qed
  qed
  then show ?thesis using g by (simp add: subscribedExactly_def)
qed

lemma newWatcher_subscribedExactly:
  "\<forall>d. w \<notin> set (subs s d) \<Longrightarrow> watchers s w = newWatcher v dp us lz sy \<Longrightarrow> subscribedExactly s w"
  by (simp add: subscribedExactly_def newWatcher_def)

text \<open>
  Claim C3. Let watcher \<open>w\<close> start an evaluation with an empty working set, and let
  \<open>d\<close> be a dependency node of its previous evaluation that is not read in this one,
  with \<open>w\<close> at most once among its subscribers. When \<open>get()\<close> has returned, \<open>w\<close> is no
  subscriber of \<open>d\<close>, the dependency set of \<open>w\<close> is the set of nodes read in this
  evaluation, the working set is empty again, and \<open>notify()\<close> on \<open>d\<close> does not call the
  \<open>update()\<close> of \<open>w\<close>.
\<close>

theorem stale_dependency_is_pruned:
  assumes "newDeps (watchers s w) = []" and "newDepIds (watchers s w) = {}"
    and "d \<in> set (deps (watchers s w))" and "d \<notin> set (touched s w ev)"
    and "count_list (subs s d) w \<le> 1"
  shows "w \<notin> set (subs (fst (get s w ev)) d)
         \<and> depIds (watchers (fst (get s w ev)) w) = set (touched s w ev)
         \<and> set (deps (watchers (fst (get s w ev)) w)) = set (touched s w ev)
         \<and> newDepIds (watchers (fst (get s w ev)) w) = {}
         \<and> newDeps (watchers (fst (get s w ev)) w) = []
         \<and> UpdateCall w \<notin> set (snd (notify e (fst (get s w ev)) d))"
proof -
  note g = get_effect [OF assms(1,2), of ev, unfolded Let_def]
  have pos: "0 < count_list (deps (watchers s w)) d"
    using assms(3) count_list_0_iff [of "deps (watchers s w)" d] by (cases "count_list (deps (watchers s w)) d") auto
  have unsub: "w \<notin> set (subs (fst (get s w ev)) d)"
    using g assms(4) funpow_remove1_le1 [OF assms(5) pos] by simp
  then have "count_list (snd (notify e (fst (get s w ev)) d)) (UpdateCall w) = 0"
    by (simp add: notify_calls)
  then have "UpdateCall w \<notin> set (snd (notify e (fst (get s w ev)) d))"
    by (metis count_list_0_iff)
  with unsub g show ?thesis by simp
qed

theorem stale_dependency_is_pruned_witness:
  "2 \<notin> set (subs (fst (get exampleStore 2
                 \<lparr> reads = [1], outcome = Inr (JNum 0), deepReads = [], cbThrows = None \<rparr>)) 2)
   \<and> UpdateCall 2 \<notin> set (snd (notify devEnv (fst (get exampleStore 2
                 \<lparr> reads = [1], outcome = Inr (JNum 0), deepReads = [], cbThrows = None \<rparr>)) 2))"
  using stale_dependency_is_pruned [of exampleStore 2 2
      "\<lparr> reads = [1], outcome = Inr (JNum 0), deepReads = [], cbThrows = None \<rparr>" devEnv]
  by (simp add: exampleStore_def newWatcher_def touched_def)




section \<open>The fallback step of \<open>updateChildren\<close>\<close>

lemma findIdxLoop_None: "findIdxLoop e s node chs is = Inr None \<longleftrightarrow> noMatchIn e s node chs is"
  by (induction "is") (auto simp: noMatchIn_def split: option.splits sum.splits)

lemma findIdxLoop_first:
  "noMatchIn e s node chs is \<Longrightarrow> aget chs i = Some c
     \<Longrightarrow> sameVnode e (vnodes s node) (vnodes s c) = Inr True
     \<Longrightarrow> findIdxLoop e s node chs (is @ i # js) = Inr (Some i)"
  by (induction "is") (auto simp: noMatchIn_def split: option.splits sum.splits)

lemma createElm_result:
  "\<exists>s' arr. createElm s (Some v) p r chs idx = Inr (s', arr, CreateElm (createdNode s v) p r idx)"
  by (simp add: createElm_def createdNode_def Let_def split_beta)

text \<open>
  Claim C7, as far as it holds. In the fallback step with a keyless new start node, the
  scan runs from the old start index up to, but not including, the old end index. When
  no node there is the same node, a handle is created for the new start node before the
  old start node's handle. When the first node found at index \<open>i\<close> also passes
  \<open>sameVnode\<close> in the other argument order, it is patched, moved before the old start
  node's handle (unless \<open>removeOnly\<close>) and its slot is emptied, and no handle is created;
  when it does not pass, a handle is created all the same.
\<close>

theorem keyless_fallback_scan:
  assumes "oldStartVnode u = Some os" and "oldEndVnode u = Some oe" and "newStartVnode u = Some ns"
    and "sameVnodeAt e (store u) (oldStartVnode u) (newStartVnode u) = Inr False"
    and "sameVnodeAt e (store u) (oldEndVnode u) (newEndVnode u) = Inr False"
    and "sameVnodeAt e (store u) (oldStartVnode u) (newEndVnode u) = Inr False"
    and "sameVnodeAt e (store u) (oldEndVnode u) (newStartVnode u) = Inr False"
    and "(case oldKeyToIdx u of
            None \<Rightarrow> createKeyToOldIdx e (store u) (oldCh u) (oldStartIdx u) (oldEndIdx u)
          | Some m \<Rightarrow> Inr m) = Inr keys"
    and "\<not> isDef (key (vnodes (store u) ns))"
  shows "(noMatchIn e (store u) ns (oldCh u) [oldStartIdx u .. oldEndIdx u - 1] \<longrightarrow>
            (\<exists>u'. ucstep e parentElm canMove u = Inr u'
               \<and> calls u' = calls u @ [CreateElm (createdNode (store u) ns) parentElm
                                         (elm (vnodes (store u) os)) (newStartIdx u)]
               \<and> oldCh u' = oldCh u
               \<and> newStartIdx u' = newStartIdx u + 1))
       \<and> (\<forall>i c. oldStartIdx u \<le> i \<and> i < oldEndIdx u
               \<and> noMatchIn e (store u) ns (oldCh u) [oldStartIdx u .. i - 1]
               \<and> aget (oldCh u) i = Some c
               \<and> sameVnode e (vnodes (store u) ns) (vnodes (store u) c) = Inr True \<longrightarrow>
            (sameVnode e (vnodes (store u) c) (vnodes (store u) ns) = Inr False \<longrightarrow>
               (\<exists>u'. ucstep e parentElm canMove u = Inr u'
                  \<and> calls u' = calls u @ [CreateElm (createdNode (store u) ns) parentElm
                                            (elm (vnodes (store u) os)) (newStartIdx u)]))
            \<and> (\<forall>s' arr evs.
                 sameVnode e (vnodes (store u) c) (vnodes (store u) ns) = Inr True
                 \<and> patchVnode e (store u) c ns (Some (newCh u)) (newStartIdx u) False = Inr (s', arr, evs) \<longrightarrow>
               (\<exists>u'. ucstep e parentElm canMove u = Inr u'
                  \<and> calls u' = calls u @ PatchVnode c ns (newStartIdx u) evs
                        # (if canMove
                           then [InsertBefore parentElm (elm (vnodes s' c)) (RefNode (elm (vnodes s' os)))]
                           else [])
                  \<and> oldCh u' = aset (oldCh u) i None)))"
proof -
  have step: "ucstep e parentElm canMove u = fallbackStep e parentElm canMove u"
    using assms(1-7) by (simp add: ucstep_def)
  have cr: "\<exists>s' arr. createElm (store u) (Some ns) parentElm (elm (vnodes (store u) os)) (newCh u) (newStartIdx u)
      = Inr (s', arr, CreateElm (createdNode (store u) ns) parentElm (elm (vnodes (store u) os)) (newStartIdx u))"
    by (rule createElm_result)
  have A: "noMatchIn e (store u) ns (oldCh u) [oldStartIdx u .. oldEndIdx u - 1] \<Longrightarrow>
            (\<exists>u'. ucstep e parentElm canMove u = Inr u'
               \<and> calls u' = calls u @ [CreateElm (createdNode (store u) ns) parentElm
                                         (elm (vnodes (store u) os)) (newStartIdx u)]
               \<and> oldCh u' = oldCh u
               \<and> newStartIdx u' = newStartIdx u + 1)"
  proof -
    assume "noMatchIn e (store u) ns (oldCh u) [oldStartIdx u .. oldEndIdx u - 1]"
    then have f: "findIdxInOld e (store u) ns (oldCh u) (oldStartIdx u) (oldEndIdx u) = Inr None"
      by (simp add: findIdxInOld_def findIdxLoop_None)
    from cr obtain s' arr where c: "createElm (store u) (Some ns) parentElm (elm (vnodes (store u) os)) (newCh u) (newStartIdx u)
      = Inr (s', arr, CreateElm (createdNode (store u) ns) parentElm (elm (vnodes (store u) os)) (newStartIdx u))"
      by blast
    show ?thesis
      unfolding step fallbackStep_def
      using assms(1,3,8,9) f c by (simp add: Let_def elmOf_def)
  qed
  have B: "\<And>i c. oldStartIdx u \<le> i \<Longrightarrow> i < oldEndIdx u
               \<Longrightarrow> noMatchIn e (store u) ns (oldCh u) [oldStartIdx u .. i - 1]
               \<Longrightarrow> aget (oldCh u) i = Some c
               \<Longrightarrow> sameVnode e (vnodes (store u) ns) (vnodes (store u) c) = Inr True
               \<Longrightarrow> findIdxInOld e (store u) ns (oldCh u) (oldStartIdx u) (oldEndIdx u) = Inr (Some i)"
  proof -
    fix i c
    assume a: "oldStartIdx u \<le> i" "i < oldEndIdx u"
      "noMatchIn e (store u) ns (oldCh u) [oldStartIdx u .. i - 1]"
      "aget (oldCh u) i = Some c"
      "sameVnode e (vnodes (store u) ns) (vnodes (store u) c) = Inr True"
    have "[oldStartIdx u .. oldEndIdx u - 1] = [oldStartIdx u .. i - 1] @ i # [i + 1 .. oldEndIdx u - 1]"
      using a(1,2) by (intro upto_split3) auto
    then show "findIdxInOld e (store u) ns (oldCh u) (oldStartIdx u) (oldEndIdx u) = Inr (Some i)"
      using findIdxLoop_first [OF a(3,4,5)] by (simp add: findIdxInOld_def)
  qed
  show ?thesis
  proof (intro conjI impI allI, goal_cases)
    case 1
    then show ?case by (rule A)
  next
    case (2 i c)
    then have f: "findIdxInOld e (store u) ns (oldCh u) (oldStartIdx u) (oldEndIdx u) = Inr (Some i)"
      using B by blast
    from cr obtain s' arr where c: "createElm (store u) (Some ns) parentElm (elm (vnodes (store u) os)) (newCh u) (newStartIdx u)
      = Inr (s', arr, CreateElm (createdNode (store u) ns) parentElm (elm (vnodes (store u) os)) (newStartIdx u))"
      by blast
    show ?case
      unfolding step fallbackStep_def
      using assms(1,3,8,9) f c 2 by (simp add: Let_def elmOf_def sameVnodeAt_def)
  next
    case (3 i c s' arr evs)
    then have f: "findIdxInOld e (store u) ns (oldCh u) (oldStartIdx u) (oldEndIdx u) = Inr (Some i)"
      using B by blast
    show ?case
      unfolding step fallbackStep_def
      using assms(1,3,8,9) f 3
      by (auto simp: Let_def elmOf_def sameVnodeAt_def patchAndMove_def split: option.splits)
  qed
qed


theorem keyless_fallback_scan_witness:
  "(\<exists>u'. ucstep webEnv (Some 0) True (ucInit asyncStore [Some 1, Some 2] [Some 3, Some 4]) = Inr u'
      \<and> calls u' = [CreateElm 3 (Some 0) (Some 10) 0])
   \<and> (\<exists>u'. ucstep webEnv (Some 0) True (ucInit keylessStore [Some 1, Some 2, Some 3] [Some 4, Some 5]) = Inr u'
      \<and> calls u' = [PatchVnode 2 4 0 [], InsertBefore (Some 0) (Some 11) (RefNode (Some 10))]
      \<and> oldCh u' = [Some 1, None, Some 3])"
proof -
  let ?u = "ucInit asyncStore [Some 1, Some 2] [Some 3, Some 4]"
  let ?v = "ucInit keylessStore [Some 1, Some 2, Some 3] [Some 4, Some 5]"
  have u: "oldStartVnode ?u = Some 1" "oldEndVnode ?u = Some 2" "newStartVnode ?u = Some 3"
    "sameVnodeAt webEnv (store ?u) (oldStartVnode ?u) (newStartVnode ?u) = Inr False"
    "sameVnodeAt webEnv (store ?u) (oldEndVnode ?u) (newEndVnode ?u) = Inr False"
    "sameVnodeAt webEnv (store ?u) (oldStartVnode ?u) (newEndVnode ?u) = Inr False"
    "sameVnodeAt webEnv (store ?u) (oldEndVnode ?u) (newStartVnode ?u) = Inr False"
    "(case oldKeyToIdx ?u of
            None \<Rightarrow> createKeyToOldIdx webEnv (store ?u) (oldCh ?u) (oldStartIdx ?u) (oldEndIdx ?u)
          | Some m \<Rightarrow> Inr m) = Inr Map.empty"
    "\<not> isDef (key (vnodes (store ?u) 3))"
    "noMatchIn webEnv (store ?u) 3 (oldCh ?u) [oldStartIdx ?u .. oldEndIdx ?u - 1]"
    by (simp_all add: ucInit_def aget_def sameVnodeAt_def sameVnode_def sameInputType_def
        asyncStore_def newVNode_def createKeyToOldIdx_def upto.simps noMatchIn_def)
  have v: "oldStartVnode ?v = Some 1" "oldEndVnode ?v = Some 3" "newStartVnode ?v = Some 4"
    "sameVnodeAt webEnv (store ?v) (oldStartVnode ?v) (newStartVnode ?v) = Inr False"
    "sameVnodeAt webEnv (store ?v) (oldEndVnode ?v) (newEndVnode ?v) = Inr False"
    "sameVnodeAt webEnv (store ?v) (oldStartVnode ?v) (newEndVnode ?v) = Inr False"
    "sameVnodeAt webEnv (store ?v) (oldEndVnode ?v) (newStartVnode ?v) = Inr False"
    "(case oldKeyToIdx ?v of
            None \<Rightarrow> createKeyToOldIdx webEnv (store ?v) (oldCh ?v) (oldStartIdx ?v) (oldEndIdx ?v)
          | Some m \<Rightarrow> Inr m) = Inr Map.empty"
    "\<not> isDef (key (vnodes (store ?v) 4))"
    by (simp_all add: ucInit_def aget_def sameVnodeAt_def sameVnode_def sameInputType_def
        keylessStore_def newVNode_def createKeyToOldIdx_def upto.simps)
  have v2: "oldStartIdx ?v \<le> 1 \<and> 1 < oldEndIdx ?v
           \<and> noMatchIn webEnv (store ?v) 4 (oldCh ?v) [oldStartIdx ?v .. 1 - 1]
           \<and> aget (oldCh ?v) 1 = Some 2
           \<and> sameVnode webEnv (vnodes (store ?v) 4) (vnodes (store ?v) 2) = Inr True"
    "sameVnode webEnv (vnodes (store ?v) 2) (vnodes (store ?v) 4) = Inr True"
    by (simp_all add: ucInit_def aget_def sameVnode_def sameInputType_def
        keylessStore_def newVNode_def upto.simps noMatchIn_def)
  obtain s' where p: "patchVnode webEnv (store ?v) 2 4 (Some (newCh ?v)) (newStartIdx ?v) False
      = Inr (s', Some [Some 4, Some 5], [])" "elm (vnodes s' 2) = Some 11" "elm (vnodes s' 1) = Some 10"
    by (simp add: patchVnode_def patchBody_def hookDefined_def ucInit_def keylessStore_def newVNode_def Let_def)
  have cn: "createdNode (store ?u) 3 = 3" "elm (vnodes (store ?u) 1) = Some 10"
    "calls ?u = []" "calls ?v = []" "newStartIdx ?u = 0" "newStartIdx ?v = 0"
    "aset (oldCh ?v) 1 None = [Some 1, None, Some 3]"
    by (simp_all add: createdNode_def ucInit_def asyncStore_def newVNode_def aset_def)
  note a = keyless_fallback_scan [OF u(1-9), of "Some 0" True, THEN conjunct1, rule_format, OF u(10)]
  note b = keyless_fallback_scan [OF v(1-9), of "Some 0" True, THEN conjunct2, rule_format, OF v2(1),
       THEN conjunct2, rule_format, OF conjI [OF v2(2) p(1)]]
  show ?thesis
    using a b unfolding cn p(2,3) by auto
qed

text \<open>
  The new start node (the placeholder) is the same node as the old end node (the
  resolved component) for the scan's test, but the scan stops before the old end index:
  a handle is created for it, and the old end node is removed.
\<close>

theorem keyless_scan_skips_old_end_counterexample:
  "sameVnode webEnv (vnodes asyncStore 3) (vnodes asyncStore 2) = Inr True
   \<and> map_sum id calls (updateChildren webEnv asyncStore (Some 0) [Some 1, Some 2] [Some 3, Some 4] False)
       = Inr [CreateElm 3 (Some 0) (Some 10) 0, CreateElm 4 (Some 0) (Some 10) 1,
              RemoveVnodesCall 0 1, RemoveAndInvokeRemoveHook 1, InvokeDestroyHook 1,
              RemoveAndInvokeRemoveHook 2, InvokeDestroyHook 2]"
  by code_simp

section \<open>\<open>updateChildren\<close> on reordered keyed children\<close>

subsection \<open>Arrays, and one call of \<open>patchVnode\<close>\<close>




lemma isPatchable_elm [simp]: "isPatchable (n\<lparr> elm := h \<rparr>) = isPatchable n"
  by (simp add: isPatchable_def split: option.splits)



subsection \<open>Reordered lists\<close>





lemma reordered_oa_inj:
  "reordered e s n oa na \<pi> \<sigma> \<Longrightarrow> 0 \<le> i \<Longrightarrow> i < n \<Longrightarrow> 0 \<le> i' \<Longrightarrow> i' < n \<Longrightarrow> oa i = oa i' \<Longrightarrow> i = i'"
  unfolding reordered_def by metis





subsection \<open>The invariant\<close>












subsection \<open>One iteration\<close>

lemma moveCalls_append [simp]: "moveCalls (xs @ ys) = moveCalls xs @ moveCalls ys"
  by (simp add: moveCalls_def)

lemma moveCalls_patch [simp]: "moveCalls (PatchVnode a b i evs # xs) = moveCalls xs"
  by (simp add: moveCalls_def isMove_def)

lemma moveCalls_movedTo [simp]: "moveCalls (movedTo p c h r) = movedTo p c h r"
  by (simp add: moveCalls_def isMove_def movedTo_def)

lemma moveCalls_Nil [simp]: "moveCalls [] = []"
  by (simp add: moveCalls_def)








subsection \<open>The whole run\<close>





subsection \<open>Rotations\<close>
















end
